theory Spec2Isabelle
  imports Complex_Main "HOL-Library.Log_Nat"
begin

section \<open>Errors\<close>

text \<open>
  Modelled from the spec: the module \<^verbatim>\<open>exceptions.py\<close>, which declares the exception
  classes that \<^verbatim>\<open>core.py\<close> imports, is not among the sources. Section 7 of the
  specification names two kinds of error of the core, the missing-items error, which
  carries the list of the missing names, and the invalid-argument error; they are the
  classes \<^verbatim>\<open>MissingItems\<close> and \<^verbatim>\<open>InvalidInputType\<close> that \<^verbatim>\<open>_check_requirements\<close> raises,
  here with the arguments it passes. \<open>IndexError\<close> is Python's own (\<^verbatim>\<open>[0]\<close> on an
  empty sequence), \<open>MergeError\<close> is xarray's, and \<open>Raised\<close> stands for any other
  exception class, such as the ones an elevation service raises.
\<close>

datatype error =
    InvalidInputType string string
  | MissingItems "string list"
  | IndexError
  | MergeError
  | Raised string

section \<open>The requirement checker\<close>

text \<open>
  \<^verbatim>\<open>_check_requirements(reqs, cols)\<close>. Python does not type \<^verbatim>\<open>reqs\<close>: it is either an
  iterable, seen here as the list of the items it yields, or some other object.
\<close>

datatype pyarg = Iterable "string list" | NotIterable

fun check_requirements :: "pyarg \<Rightarrow> string list \<Rightarrow> error + unit" where
  "check_requirements NotIterable cols = Inl (InvalidInputType ''reqs'' ''iterable'')"
| "check_requirements (Iterable reqs) cols =
     (let missing = filter (\<lambda>r. r \<notin> set cols) reqs
      in if missing \<noteq> [] then Inl (MissingItems missing) else Inr ())"

section \<open>Floating-point values\<close>

text \<open>
  The cells of a table or grid are IEEE floating-point numbers. A finite value is read as
  the real number it stands for, so rounding and overflow are left out of this part; the
  three special values are kept, with the arithmetic NumPy gives them: an operation on
  \<open>NaN\<close> is \<open>NaN\<close>, a finite nonzero value divided by zero is an infinity,
  \<open>0/0\<close>, \<open>inf - inf\<close>, \<open>0 * inf\<close> and \<open>inf/inf\<close> are \<open>NaN\<close>. Zero carries no sign
  (a zero divisor is taken as \<open>+0\<close>).
\<close>

datatype fnum = Num real | PInf | NInf | NaN

definition isnan :: "fnum \<Rightarrow> bool" where
  "isnan v = (v = NaN)"

definition inf_signed :: "real \<Rightarrow> fnum" where
  "inf_signed s = (if 0 < s then PInf else if s < 0 then NInf else NaN)"

fun fneg :: "fnum \<Rightarrow> fnum" where
  "fneg (Num a) = Num (- a)"
| "fneg PInf = NInf"
| "fneg NInf = PInf"
| "fneg NaN = NaN"

fun fadd :: "fnum \<Rightarrow> fnum \<Rightarrow> fnum" where
  "fadd NaN _ = NaN"
| "fadd _ NaN = NaN"
| "fadd (Num a) (Num b) = Num (a + b)"
| "fadd PInf NInf = NaN"
| "fadd NInf PInf = NaN"
| "fadd PInf _ = PInf"
| "fadd _ PInf = PInf"
| "fadd NInf _ = NInf"
| "fadd _ NInf = NInf"

definition fsub :: "fnum \<Rightarrow> fnum \<Rightarrow> fnum" where
  "fsub a b = fadd a (fneg b)"

fun fmul :: "fnum \<Rightarrow> fnum \<Rightarrow> fnum" where
  "fmul NaN _ = NaN"
| "fmul _ NaN = NaN"
| "fmul (Num a) (Num b) = Num (a * b)"
| "fmul (Num a) PInf = inf_signed a"
| "fmul (Num a) NInf = inf_signed (- a)"
| "fmul PInf (Num b) = inf_signed b"
| "fmul NInf (Num b) = inf_signed (- b)"
| "fmul PInf PInf = PInf"
| "fmul NInf NInf = PInf"
| "fmul PInf NInf = NInf"
| "fmul NInf PInf = NInf"

fun fdiv :: "fnum \<Rightarrow> fnum \<Rightarrow> fnum" where
  "fdiv NaN _ = NaN"
| "fdiv _ NaN = NaN"
| "fdiv (Num a) (Num b) = (if b = 0 then inf_signed a else Num (a / b))"
| "fdiv (Num a) PInf = Num 0"
| "fdiv (Num a) NInf = Num 0"
| "fdiv PInf (Num b) = (if 0 \<le> b then PInf else NInf)"
| "fdiv NInf (Num b) = (if 0 \<le> b then NInf else PInf)"
| "fdiv PInf PInf = NaN"
| "fdiv PInf NInf = NaN"
| "fdiv NInf PInf = NaN"
| "fdiv NInf NInf = NaN"

fun fexp :: "fnum \<Rightarrow> fnum" where
  "fexp (Num a) = Num (exp a)"
| "fexp PInf = PInf"
| "fexp NInf = Num 0"
| "fexp NaN = NaN"

fun fsqrt :: "fnum \<Rightarrow> fnum" where
  "fsqrt (Num a) = (if a < 0 then NaN else Num (sqrt a))"
| "fsqrt PInf = PInf"
| "fsqrt NInf = NaN"
| "fsqrt NaN = NaN"

fun fcos :: "fnum \<Rightarrow> fnum" where
  "fcos (Num a) = Num (cos a)"
| "fcos _ = NaN"

fun fsin :: "fnum \<Rightarrow> fnum" where
  "fsin (Num a) = Num (sin a)"
| "fsin _ = NaN"

text \<open>The tangent has no value at its poles; \<open>NaN\<close> stands for it there.\<close>

fun ftan :: "fnum \<Rightarrow> fnum" where
  "ftan (Num a) = (if cos a = 0 then NaN else Num (tan a))"
| "ftan _ = NaN"

fun farccos :: "fnum \<Rightarrow> fnum" where
  "farccos (Num a) = (if - 1 \<le> a \<and> a \<le> 1 then Num (arccos a) else NaN)"
| "farccos _ = NaN"

text \<open>
  \<^verbatim>\<open>x ** n\<close> for the integer exponents of the source (\<open>2\<close> and \<open>4\<close>), and \<^verbatim>\<open>x ** c\<close>
  for a positive exponent that is not an integer (\<open>5.26\<close>): NumPy gives \<open>NaN\<close> for a
  negative base there.
\<close>

fun fpown :: "fnum \<Rightarrow> nat \<Rightarrow> fnum" where
  "fpown (Num a) n = Num (a ^ n)"
| "fpown PInf n = PInf"
| "fpown NInf n = (if even n then PInf else NInf)"
| "fpown NaN n = NaN"

fun fpowr :: "fnum \<Rightarrow> real \<Rightarrow> fnum" where
  "fpowr (Num a) c = (if a < 0 then NaN else Num (a powr c))"
| "fpowr PInf c = PInf"
| "fpowr NInf c = PInf"
| "fpowr NaN c = NaN"

section \<open>Rounding in the rescale of the vapour pressure\<close>

text \<open>
  The reading of floats as reals hides the rounding of the two multiplications that
  rescale the vapour pressure, \<^verbatim>\<open>vp * 1e-3\<close> (lines 271 and 363) and \<^verbatim>\<open>vp * 1.0e3\<close>
  (lines 312 and 408). For these two the IEEE 754 operation is modelled as it is: a finite
  binary floating-point number is \<open>m \<times> 2\<^sup>e\<close> for integers \<open>m\<close> and \<open>e\<close>, and a product is
  the exact product rounded to the nearest number with a significand of \<open>p\<close> bits, ties
  to the even significand (\<open>p = 53\<close> for binary64, the type of a pandas column of floats,
  and \<open>p = 24\<close> for binary32, the type of the Daymet grids). The exponent is not bounded:
  the values are taken away from overflow and underflow.
\<close>

type_synonym bfloat = "int \<times> int"

definition bval :: "bfloat \<Rightarrow> real" where
  "bval f = real_of_int (fst f) * 2 powi snd f"

definition round_even :: "nat \<Rightarrow> bfloat \<Rightarrow> bfloat" where
  "round_even p f =
     (let m = fst f; e = snd f; k = bitlen \<bar>m\<bar> - int p
      in if k \<le> 0 then (m, e)
         else (let d = 2 ^ nat k; q = m div d; r = m mod d
               in (if 2 * r < d \<or> (2 * r = d \<and> even q) then q else q + 1, e + k)))"

definition bmul :: "nat \<Rightarrow> bfloat \<Rightarrow> bfloat \<Rightarrow> bfloat" where
  "bmul p a b = round_even p (fst a * fst b, snd a + snd b)"

text \<open>
  The literal \<^verbatim>\<open>1e-3\<close> is the binary64 number nearest to one thousandth,
  \<open>1152921504606847 \<times> 2\<^sup>-\<^sup>6\<^sup>0\<close>; NumPy converts it to binary32, \<open>8589935 \<times> 2\<^sup>-\<^sup>3\<^sup>3\<close>, when the
  array is binary32. \<^verbatim>\<open>1.0e3\<close> is exact in both.
\<close>

definition milli64 :: bfloat where
  "milli64 = (1152921504606847, - 60)"

definition milli32 :: bfloat where
  "milli32 = (8589935, - 33)"

definition kilo :: bfloat where
  "kilo = (1000, 0)"

text \<open>The value of a vapour pressure cell after line 271 and then line 312.\<close>

definition vp_roundtrip64 :: "bfloat \<Rightarrow> bfloat" where
  "vp_roundtrip64 v = bmul 53 (bmul 53 v milli64) kilo"

definition vp_roundtrip32 :: "bfloat \<Rightarrow> bfloat" where
  "vp_roundtrip32 v = bmul 24 (bmul 24 v milli32) kilo"

section \<open>Time stamps\<close>

text \<open>
  A time stamp is a calendar date (the hour plays no part here).
  \<open>dayofyear\<close> is pandas' \<^verbatim>\<open>DatetimeIndex.dayofyear\<close>.
\<close>

record timestamp =
  ts_year :: nat
  ts_month :: nat
  ts_day :: nat

definition is_leap_year :: "nat \<Rightarrow> bool" where
  "is_leap_year yr = (yr mod 4 = 0 \<and> (yr mod 100 \<noteq> 0 \<or> yr mod 400 = 0))"

definition month_lengths :: "nat \<Rightarrow> nat list" where
  "month_lengths yr =
     [31, if is_leap_year yr then 29 else 28, 31, 30, 31, 30, 31, 31, 30, 31, 30, 31]"

definition dayofyear :: "timestamp \<Rightarrow> nat" where
  "dayofyear ts = sum_list (take (ts_month ts - 1) (month_lengths (ts_year ts))) + ts_day ts"

section \<open>Objects and references\<close>

text \<open>
  Python passes tables and datasets by reference and the engines mutate them in place. The
  store is the list of the live objects and a reference is a position in it; a new object
  is added at the end.
\<close>

definition alloc :: "'a list \<Rightarrow> 'a \<Rightarrow> nat \<times> 'a list" where
  "alloc h v = (length h, h @ [v])"

section \<open>Point tables\<close>

text \<open>
  A pandas \<^verbatim>\<open>DataFrame\<close>: the time index, the column labels in their order, and the
  column stored under each label. A column (\<^verbatim>\<open>Series\<close>) is read by row position; the
  index gives the number of rows. Only the columns named in \<open>df_columns\<close> belong to the
  table.
\<close>

type_synonym series = "nat \<Rightarrow> fnum"

record frame =
  df_index :: "timestamp list"
  df_columns :: "string list"
  df_data :: "string \<Rightarrow> series"

definition getitem :: "frame \<Rightarrow> string \<Rightarrow> series" where
  "getitem df c = df_data df c"

text \<open>\<^verbatim>\<open>df[c] = s\<close>: an existing column is replaced where it stands, a new one is appended.\<close>

definition setitem :: "frame \<Rightarrow> string \<Rightarrow> series \<Rightarrow> frame" where
  "setitem df c s =
     df\<lparr>df_columns := (if c \<in> set (df_columns df) then df_columns df else df_columns df @ [c]),
        df_data := (df_data df)(c := s)\<rparr>"

text \<open>\<^verbatim>\<open>df.drop(columns=c)\<close> returns a new table and leaves \<^verbatim>\<open>df\<close> as it is.\<close>

definition drop_column :: "frame \<Rightarrow> string \<Rightarrow> frame" where
  "drop_column df c = df\<lparr>df_columns := filter (\<lambda>k. k \<noteq> c) (df_columns df)\<rparr>"

section \<open>The point engine\<close>

text \<open>
  \<^verbatim>\<open>Daymet.pet_bycoords(clm_df, coords, crs, alt_unit)\<close>. The column labels first:
  \<^verbatim>\<open>units[v][alt_unit]\<close> indexes a pair with a boolean, so \<^verbatim>\<open>False\<close> picks the first
  label and \<^verbatim>\<open>True\<close> the second. The function reads the dictionary at its three keys
  only.
\<close>

definition units :: "(string \<times> string \<times> string) list" where
  "units =
     [(''srad'', (''W/m2'', ''W/m^2'')),
      (''tmax'', (''degrees C'', ''deg c'')),
      (''tmin'', (''degrees C'', ''deg c''))]"

definition unit_label :: "string \<Rightarrow> bool \<Rightarrow> string" where
  "unit_label v alt_unit =
     (case map_of units v of
        Some u \<Rightarrow> (if alt_unit then snd u else fst u)
      | None \<Rightarrow> [])"

definition va_pa :: string where
  "va_pa = ''vp (Pa)''"

definition tmin_c :: "bool \<Rightarrow> string" where
  "tmin_c alt_unit = ''tmin ('' @ unit_label ''tmin'' alt_unit @ '')''"

definition tmax_c :: "bool \<Rightarrow> string" where
  "tmax_c alt_unit = ''tmax ('' @ unit_label ''tmax'' alt_unit @ '')''"

definition srad_wm2 :: "bool \<Rightarrow> string" where
  "srad_wm2 alt_unit = ''srad ('' @ unit_label ''srad'' alt_unit @ '')''"

definition dayl_s :: string where
  "dayl_s = ''dayl (s)''"

definition tmean_c :: string where
  "tmean_c = ''tmean (deg c)''"

definition pet_c :: string where
  "pet_c = ''pet (mm/day)''"

definition reqs_bycoords :: "bool \<Rightarrow> string list" where
  "reqs_bycoords alt_unit = [tmin_c alt_unit, tmax_c alt_unit, va_pa, srad_wm2 alt_unit, dayl_s]"

text \<open>The constants of the source: soil heat flux, wind speed at 2 m, albedo.\<close>

definition rho_s :: fnum where
  "rho_s = Num 0.0"

definition u_2m :: fnum where
  "u_2m = Num 2.0"

definition alb :: fnum where
  "alb = Num 0.23"

text \<open>
  The local variables of the function, one definition for each assignment, with the
  operators in Python's order of evaluation. An expression over columns is computed row
  by row. The literals are written in full: \<open>0.000665\<close> is \<^verbatim>\<open>0.665e-3\<close>, \<open>0.001\<close> is
  \<^verbatim>\<open>1e-3\<close>, \<open>0.000001\<close> is \<^verbatim>\<open>1e-6\<close>, \<open>0.00002\<close> is \<^verbatim>\<open>2e-5\<close> and
  \<open>0.000000004903\<close> is \<^verbatim>\<open>4.903e-9\<close>.
\<close>

definition pt_tmean :: "series \<Rightarrow> series \<Rightarrow> series" where
  "pt_tmean tmax tmin = (\<lambda>i. fmul (Num 0.5) (fadd (tmax i) (tmin i)))"

definition pt_delta_v :: "series \<Rightarrow> series" where
  "pt_delta_v tmean = (\<lambda>i.
     fdiv (fmul (Num 4098)
             (fmul (Num 0.6108)
                (fexp (fdiv (fmul (Num 17.27) (tmean i)) (fadd (tmean i) (Num 237.3))))))
          (fpown (fadd (tmean i) (Num 237.3)) 2))"

definition pt_pa :: "fnum \<Rightarrow> fnum" where
  "pt_pa elevation =
     fmul (Num 101.3)
       (fpowr (fdiv (fsub (Num 293.0) (fmul (Num 0.0065) elevation)) (Num 293.0)) 5.26)"

definition pt_gamma :: "fnum \<Rightarrow> fnum" where
  "pt_gamma pa = fmul pa (Num 0.000665)"

definition pt_e_max :: "series \<Rightarrow> series" where
  "pt_e_max tmax = (\<lambda>i.
     fmul (Num 0.6108) (fexp (fdiv (fmul (Num 17.27) (tmax i)) (fadd (tmax i) (Num 237.3)))))"

definition pt_e_min :: "series \<Rightarrow> series" where
  "pt_e_min tmin = (\<lambda>i.
     fmul (Num 0.6108) (fexp (fdiv (fmul (Num 17.27) (tmin i)) (fadd (tmin i) (Num 237.3)))))"

definition pt_e_s :: "series \<Rightarrow> series \<Rightarrow> series" where
  "pt_e_s e_max e_min = (\<lambda>i. fmul (fadd (e_max i) (e_min i)) (Num 0.5))"

definition pt_e_def :: "series \<Rightarrow> series \<Rightarrow> series" where
  "pt_e_def e_s vp = (\<lambda>i. fsub (e_s i) (vp i))"

definition pt_jday :: "timestamp list \<Rightarrow> series" where
  "pt_jday idx = (\<lambda>i. Num (real (dayofyear (idx ! i))))"

definition pt_r_surf :: "series \<Rightarrow> series \<Rightarrow> series" where
  "pt_r_surf srad dayl = (\<lambda>i. fmul (fmul (srad i) (dayl i)) (Num 0.000001))"

definition pt_jp :: "series \<Rightarrow> series" where
  "pt_jp jday = (\<lambda>i. fdiv (fmul (fmul (Num 2.0) (Num pi)) (jday i)) (Num 365.0))"

definition pt_d_r :: "series \<Rightarrow> series" where
  "pt_d_r jp = (\<lambda>i. fadd (Num 1.0) (fmul (Num 0.033) (fcos (jp i))))"

definition pt_delta_r :: "series \<Rightarrow> series" where
  "pt_delta_r jp = (\<lambda>i. fmul (Num 0.409) (fsin (fsub (jp i) (Num 1.39))))"

definition pt_phi :: "fnum \<times> fnum \<Rightarrow> fnum" where
  "pt_phi coords = fdiv (fmul (snd coords) (Num pi)) (Num 180.0)"

definition pt_w_s :: "fnum \<Rightarrow> series \<Rightarrow> series" where
  "pt_w_s phi delta_r = (\<lambda>i. farccos (fmul (fneg (ftan phi)) (ftan (delta_r i))))"

definition pt_r_aero :: "series \<Rightarrow> series \<Rightarrow> fnum \<Rightarrow> series \<Rightarrow> series" where
  "pt_r_aero d_r w_s phi delta_r = (\<lambda>i.
     fmul (fmul (fmul (fdiv (fmul (Num 24.0) (Num 60.0)) (Num pi)) (Num 0.082)) (d_r i))
          (fadd (fmul (fmul (w_s i) (fsin phi)) (fsin (delta_r i)))
                (fmul (fmul (fcos phi) (fcos (delta_r i))) (fsin (w_s i)))))"

definition pt_rad_s :: "fnum \<Rightarrow> series \<Rightarrow> series" where
  "pt_rad_s elevation r_aero = (\<lambda>i.
     fmul (fadd (Num 0.75) (fmul (Num 0.00002) elevation)) (r_aero i))"

definition pt_rad_ns :: "series \<Rightarrow> series" where
  "pt_rad_ns r_surf = (\<lambda>i. fmul (fsub (Num 1.0) alb) (r_surf i))"

definition pt_rad_nl :: "series \<Rightarrow> series \<Rightarrow> series \<Rightarrow> series \<Rightarrow> series \<Rightarrow> series" where
  "pt_rad_nl tmax tmin vp r_surf rad_s = (\<lambda>i.
     fmul (fmul (fmul (Num 0.000000004903)
                   (fmul (fadd (fpown (fadd (tmax i) (Num 273.16)) 4)
                               (fpown (fadd (tmin i) (Num 273.16)) 4))
                         (Num 0.5)))
                (fsub (Num 0.34) (fmul (Num 0.14) (fsqrt (vp i)))))
          (fsub (fdiv (fmul (Num 1.35) (r_surf i)) (rad_s i)) (Num 0.35)))"

definition pt_rad_n :: "series \<Rightarrow> series \<Rightarrow> series" where
  "pt_rad_n rad_ns rad_nl = (\<lambda>i. fsub (rad_ns i) (rad_nl i))"

definition pt_pet :: "series \<Rightarrow> series \<Rightarrow> fnum \<Rightarrow> series \<Rightarrow> series \<Rightarrow> series" where
  "pt_pet delta_v rad_n gamma tmean e_def = (\<lambda>i.
     fdiv (fadd (fmul (fmul (Num 0.408) (delta_v i)) (fsub (rad_n i) rho_s))
                (fmul (fmul (fdiv (fmul gamma (Num 900.0)) (fadd (tmean i) (Num 273.0))) u_2m)
                      (e_def i)))
          (fadd (delta_v i) (fmul gamma (fadd (Num 1) (fmul (Num 0.34) u_2m)))))"

text \<open>
  The function itself. \<open>h\<close> is the store and \<open>clm_df\<close> the reference the caller passes;
  the result is the raised error or the reference of the returned table, and the store
  as the call leaves it. \<open>elevation_bycoords\<close> is the elevation service
  (\<^verbatim>\<open>py3dep.elevation_bycoords\<close>), which returns a list of elevations or raises; the
  elevation is read as a NumPy float. The \<^verbatim>\<open>print\<close> of the column labels writes to
  the standard output only. \<^verbatim>\<open>drop\<close> finds the column it is given, which line 254 wrote.
\<close>

definition pet_bycoords ::
  "((fnum \<times> fnum) list \<Rightarrow> string \<Rightarrow> error + fnum list) \<Rightarrow> frame list \<Rightarrow> nat \<Rightarrow>
     fnum \<times> fnum \<Rightarrow> string \<Rightarrow> bool \<Rightarrow> (error + nat) \<times> frame list" where
  "pet_bycoords elevation_bycoords h clm_df coords crs alt_unit =
    (case check_requirements (Iterable (reqs_bycoords alt_unit)) (df_columns (h ! clm_df)) of
       Inl e \<Rightarrow> (Inl e, h)
     | Inr _ \<Rightarrow>
        (let h1 = h[clm_df := setitem (h ! clm_df) tmean_c
                     (pt_tmean (getitem (h ! clm_df) (tmax_c alt_unit))
                               (getitem (h ! clm_df) (tmin_c alt_unit)))];
             delta_v = pt_delta_v (getitem (h1 ! clm_df) tmean_c)
         in case elevation_bycoords [coords] crs of
              Inl e \<Rightarrow> (Inl e, h1)
            | Inr [] \<Rightarrow> (Inl IndexError, h1)
            | Inr (elevation # _) \<Rightarrow>
               (let pa = pt_pa elevation;
                    gamma = pt_gamma pa;
                    h2 = h1[clm_df := setitem (h1 ! clm_df) va_pa
                              (\<lambda>i. fmul (getitem (h1 ! clm_df) va_pa i) (Num 0.001))];
                    e_max = pt_e_max (getitem (h2 ! clm_df) (tmax_c alt_unit));
                    e_min = pt_e_min (getitem (h2 ! clm_df) (tmin_c alt_unit));
                    e_s = pt_e_s e_max e_min;
                    e_def = pt_e_def e_s (getitem (h2 ! clm_df) va_pa);
                    jday = pt_jday (df_index (h2 ! clm_df));
                    r_surf = pt_r_surf (getitem (h2 ! clm_df) (srad_wm2 alt_unit))
                                       (getitem (h2 ! clm_df) dayl_s);
                    jp = pt_jp jday;
                    d_r = pt_d_r jp;
                    delta_r = pt_delta_r jp;
                    phi = pt_phi coords;
                    w_s = pt_w_s phi delta_r;
                    r_aero = pt_r_aero d_r w_s phi delta_r;
                    rad_s = pt_rad_s elevation r_aero;
                    rad_ns = pt_rad_ns r_surf;
                    rad_nl = pt_rad_nl (getitem (h2 ! clm_df) (tmax_c alt_unit))
                                       (getitem (h2 ! clm_df) (tmin_c alt_unit))
                                       (getitem (h2 ! clm_df) va_pa) r_surf rad_s;
                    rad_n = pt_rad_n rad_ns rad_nl;
                    h3 = h2[clm_df := setitem (h2 ! clm_df) pet_c
                              (pt_pet delta_v rad_n gamma (getitem (h2 ! clm_df) tmean_c) e_def)];
                    h4 = h3[clm_df := setitem (h3 ! clm_df) va_pa
                              (\<lambda>i. fmul (getitem (h3 ! clm_df) va_pa i) (Num 1000.0))]
                in (Inr (fst (alloc h4 (drop_column (h4 ! clm_df) tmean_c))),
                    snd (alloc h4 (drop_column (h4 ! clm_df) tmean_c))))))"

section \<open>Grid datasets\<close>

text \<open>
  An xarray \<^verbatim>\<open>Dataset\<close> over the dimensions time, y and x: the three coordinates, the
  attributes \<^verbatim>\<open>res\<close> and \<^verbatim>\<open>crs\<close>, the names of the data variables in their order
  (\<^verbatim>\<open>list(ds.keys())\<close>) and the array stored under each name. An array is read by the
  positions \<open>t\<close>, \<open>y\<close>, \<open>x\<close> of a cell; an array without the time dimension, such as an
  elevation field, takes the same value for every \<open>t\<close>, which is how xarray broadcasts it.
  The type of the time labels is a parameter: the engine replaces the time stamps by day
  numbers for a while.
\<close>

type_synonym cells = "nat \<Rightarrow> nat \<Rightarrow> nat \<Rightarrow> fnum"

record darray =
  da_cell :: cells
  da_attrs :: "(string \<times> string) list"

record 't dataset =
  ds_time :: "'t list"
  ds_y :: "fnum list"
  ds_x :: "fnum list"
  ds_res :: "fnum \<times> fnum"
  ds_crs :: string
  ds_keys :: "string list"
  ds_vars :: "string \<Rightarrow> darray"

text \<open>The result of an arithmetic expression is a new array, without attributes.\<close>

definition new_array :: "cells \<Rightarrow> darray" where
  "new_array c = \<lparr>da_cell = c, da_attrs = []\<rparr>"

definition ds_getitem :: "'t dataset \<Rightarrow> string \<Rightarrow> cells" where
  "ds_getitem ds k = da_cell (ds_vars ds k)"

definition ds_setitem :: "'t dataset \<Rightarrow> string \<Rightarrow> darray \<Rightarrow> 't dataset" where
  "ds_setitem ds k a =
     ds\<lparr>ds_keys := (if k \<in> set (ds_keys ds) then ds_keys ds else ds_keys ds @ [k]),
        ds_vars := (ds_vars ds)(k := a)\<rparr>"

text \<open>\<^verbatim>\<open>ds[k] *= c\<close> rescales the array in place and keeps its attributes.\<close>

definition ds_imul :: "'t dataset \<Rightarrow> string \<Rightarrow> fnum \<Rightarrow> 't dataset" where
  "ds_imul ds k c =
     ds_setitem ds k ((ds_vars ds k)\<lparr>da_cell := (\<lambda>t y x. fmul (ds_getitem ds k t y x) c)\<rparr>)"

text \<open>\<^verbatim>\<open>ds["time"] = labels\<close> replaces the time coordinate.\<close>

definition set_time :: "'a dataset \<Rightarrow> 'b list \<Rightarrow> 'b dataset" where
  "set_time ds labels =
     \<lparr>ds_time = labels, ds_y = ds_y ds, ds_x = ds_x ds, ds_res = ds_res ds,
      ds_crs = ds_crs ds, ds_keys = ds_keys ds, ds_vars = ds_vars ds\<rparr>"

definition drop_vars :: "'t dataset \<Rightarrow> string list \<Rightarrow> 't dataset" where
  "drop_vars ds ks = ds\<lparr>ds_keys := filter (\<lambda>k. k \<notin> set ks) (ds_keys ds)\<rparr>"

text \<open>
  \<^verbatim>\<open>xr.merge([clm_ds, elev])\<close>, where \<^verbatim>\<open>elev\<close> is the array named \<^verbatim>\<open>elevation\<close> that
  the elevation service returns on the grid of the dataset. A dataset that has no variable
  of that name gains it. One that has it keeps a single variable if the two agree in every
  cell where both are defined (xarray's default \<^verbatim>\<open>compat="no_conflicts"\<close>), filled from
  both; otherwise xarray raises \<^verbatim>\<open>MergeError\<close>.
\<close>

definition no_conflicts :: "nat \<Rightarrow> nat \<Rightarrow> nat \<Rightarrow> cells \<Rightarrow> cells \<Rightarrow> bool" where
  "no_conflicts nt ny nx a b =
     list_all (\<lambda>t. list_all (\<lambda>y. list_all (\<lambda>x.
        isnan (a t y x) \<or> isnan (b t y x) \<or> a t y x = b t y x) [0..<nx]) [0..<ny]) [0..<nt]"

definition xr_merge :: "'t dataset \<Rightarrow> (nat \<Rightarrow> nat \<Rightarrow> fnum) \<Rightarrow> error + 't dataset" where
  "xr_merge ds elev =
     (if ''elevation'' \<in> set (ds_keys ds) then
        (if no_conflicts (length (ds_time ds)) (length (ds_y ds)) (length (ds_x ds))
              (ds_getitem ds ''elevation'') (\<lambda>t y x. elev y x)
         then Inr (ds_setitem ds ''elevation''
                 ((ds_vars ds ''elevation'')\<lparr>da_cell := (\<lambda>t y x.
                    if isnan (ds_getitem ds ''elevation'' t y x) then elev y x
                    else ds_getitem ds ''elevation'' t y x)\<rparr>))
         else Inl MergeError)
      else Inr (ds_setitem ds ''elevation'' (new_array (\<lambda>t y x. elev y x))))"

section \<open>The grid engine\<close>

text \<open>
  \<^verbatim>\<open>Daymet.pet_bygrid(clm_ds)\<close>. Its local variables first, cell by cell; two of them
  (\<^verbatim>\<open>delta_r\<close> and \<^verbatim>\<open>rad_n\<close>, with \<^verbatim>\<open>tmean\<close>, \<^verbatim>\<open>gamma\<close> and \<^verbatim>\<open>e_def\<close>) are stored in
  the dataset. The source uses the name \<^verbatim>\<open>delta_r\<close> twice: for the dataset variable that
  holds the slope of the vapour pressure curve (\<open>gr_delta\<close> here) and for the local solar
  declination (\<open>gr_delta_r\<close>).
\<close>

definition reqs_bygrid :: "string list" where
  "reqs_bygrid = [''tmin'', ''tmax'', ''lat'', ''lon'', ''vp'', ''srad'', ''dayl'']"

definition gr_tmean :: "cells \<Rightarrow> cells \<Rightarrow> cells" where
  "gr_tmean tmax tmin = (\<lambda>t y x. fmul (Num 0.5) (fadd (tmax t y x) (tmin t y x)))"

definition gr_delta :: "cells \<Rightarrow> cells" where
  "gr_delta tmean = (\<lambda>t y x.
     fdiv (fmul (Num 4098)
             (fmul (Num 0.6108)
                (fexp (fdiv (fmul (Num 17.27) (tmean t y x)) (fadd (tmean t y x) (Num 237.3))))))
          (fpown (fadd (tmean t y x) (Num 237.3)) 2))"

text \<open>
  \<^verbatim>\<open>elevation.where(~np.isnan(clm_ds.isel(time=0)[keys[0]]), drop=True)\<close>, assigned back
  to the dataset: the elevation is kept where the first time slice of the reference
  variable is a number and is \<open>NaN\<close> elsewhere (the rows and columns that \<^verbatim>\<open>drop=True\<close>
  removes come back as \<open>NaN\<close> when the assignment aligns the array with the dataset).
\<close>

definition gr_where :: "cells \<Rightarrow> cells \<Rightarrow> cells" where
  "gr_where elevation ref = (\<lambda>t y x. if \<not> isnan (ref 0 y x) then elevation t y x else NaN)"

definition gr_pa :: "cells \<Rightarrow> cells" where
  "gr_pa elevation = (\<lambda>t y x.
     fmul (Num 101.3)
       (fpowr (fdiv (fsub (Num 293.0) (fmul (Num 0.0065) (elevation t y x))) (Num 293.0)) 5.26))"

definition gr_gamma :: "cells \<Rightarrow> cells" where
  "gr_gamma pa = (\<lambda>t y x. fmul (pa t y x) (Num 0.000665))"

definition gr_e_max :: "cells \<Rightarrow> cells" where
  "gr_e_max tmax = (\<lambda>t y x.
     fmul (Num 0.6108)
       (fexp (fdiv (fmul (Num 17.27) (tmax t y x)) (fadd (tmax t y x) (Num 237.3)))))"

definition gr_e_min :: "cells \<Rightarrow> cells" where
  "gr_e_min tmin = (\<lambda>t y x.
     fmul (Num 0.6108)
       (fexp (fdiv (fmul (Num 17.27) (tmin t y x)) (fadd (tmin t y x) (Num 237.3)))))"

definition gr_e_s :: "cells \<Rightarrow> cells \<Rightarrow> cells" where
  "gr_e_s e_max e_min = (\<lambda>t y x. fmul (fadd (e_max t y x) (e_min t y x)) (Num 0.5))"

definition gr_e_def :: "cells \<Rightarrow> cells \<Rightarrow> cells" where
  "gr_e_def e_s vp = (\<lambda>t y x. fsub (e_s t y x) (vp t y x))"

text \<open>\<^verbatim>\<open>clm_ds.isel(time=0).lat\<close>: the first time slice of the latitude.\<close>

definition gr_lat :: "cells \<Rightarrow> cells" where
  "gr_lat lat = (\<lambda>t y x. lat 0 y x)"

text \<open>
  \<^verbatim>\<open>pd.to_datetime(clm_ds.time.values).dayofyear.astype(dtype)\<close>, the day numbers as
  floats, and the time coordinate read as an array.
\<close>

definition gr_dayofyear :: "timestamp list \<Rightarrow> fnum list" where
  "gr_dayofyear stamps = map (\<lambda>s. Num (real (dayofyear s))) stamps"

definition time_cells :: "fnum list \<Rightarrow> cells" where
  "time_cells labels = (\<lambda>t y x. labels ! t)"

definition gr_r_surf :: "cells \<Rightarrow> cells \<Rightarrow> cells" where
  "gr_r_surf srad dayl = (\<lambda>t y x. fmul (fmul (srad t y x) (dayl t y x)) (Num 0.000001))"

definition gr_jp :: "cells \<Rightarrow> cells" where
  "gr_jp time = (\<lambda>t y x. fdiv (fmul (fmul (Num 2.0) (Num pi)) (time t y x)) (Num 365.0))"

definition gr_d_r :: "cells \<Rightarrow> cells" where
  "gr_d_r jp = (\<lambda>t y x. fadd (Num 1.0) (fmul (Num 0.033) (fcos (jp t y x))))"

definition gr_delta_r :: "cells \<Rightarrow> cells" where
  "gr_delta_r jp = (\<lambda>t y x. fmul (Num 0.409) (fsin (fsub (jp t y x) (Num 1.39))))"

definition gr_phi :: "cells \<Rightarrow> cells" where
  "gr_phi lat = (\<lambda>t y x. fdiv (fmul (lat t y x) (Num pi)) (Num 180.0))"

definition gr_w_s :: "cells \<Rightarrow> cells \<Rightarrow> cells" where
  "gr_w_s phi delta_r = (\<lambda>t y x.
     farccos (fmul (fneg (ftan (phi t y x))) (ftan (delta_r t y x))))"

definition gr_r_aero :: "cells \<Rightarrow> cells \<Rightarrow> cells \<Rightarrow> cells \<Rightarrow> cells" where
  "gr_r_aero d_r w_s phi delta_r = (\<lambda>t y x.
     fmul (fmul (fmul (fdiv (fmul (Num 24.0) (Num 60.0)) (Num pi)) (Num 0.082)) (d_r t y x))
          (fadd (fmul (fmul (w_s t y x) (fsin (phi t y x))) (fsin (delta_r t y x)))
                (fmul (fmul (fcos (phi t y x)) (fcos (delta_r t y x))) (fsin (w_s t y x)))))"

definition gr_rad_s :: "cells \<Rightarrow> cells \<Rightarrow> cells" where
  "gr_rad_s elevation r_aero = (\<lambda>t y x.
     fmul (fadd (Num 0.75) (fmul (Num 0.00002) (elevation t y x))) (r_aero t y x))"

definition gr_rad_ns :: "cells \<Rightarrow> cells" where
  "gr_rad_ns r_surf = (\<lambda>t y x. fmul (fsub (Num 1.0) alb) (r_surf t y x))"

definition gr_rad_nl :: "cells \<Rightarrow> cells \<Rightarrow> cells \<Rightarrow> cells \<Rightarrow> cells \<Rightarrow> cells" where
  "gr_rad_nl tmax tmin vp r_surf rad_s = (\<lambda>t y x.
     fmul (fmul (fmul (Num 0.000000004903)
                   (fmul (fadd (fpown (fadd (tmax t y x) (Num 273.16)) 4)
                               (fpown (fadd (tmin t y x) (Num 273.16)) 4))
                         (Num 0.5)))
                (fsub (Num 0.34) (fmul (Num 0.14) (fsqrt (vp t y x)))))
          (fsub (fdiv (fmul (Num 1.35) (r_surf t y x)) (rad_s t y x)) (Num 0.35)))"

definition gr_rad_n :: "cells \<Rightarrow> cells \<Rightarrow> cells" where
  "gr_rad_n rad_ns rad_nl = (\<lambda>t y x. fsub (rad_ns t y x) (rad_nl t y x))"

definition gr_pet :: "cells \<Rightarrow> cells \<Rightarrow> cells \<Rightarrow> cells \<Rightarrow> cells \<Rightarrow> cells" where
  "gr_pet delta rad_n gamma tmean e_def = (\<lambda>t y x.
     fdiv (fadd (fmul (fmul (Num 0.408) (delta t y x)) (fsub (rad_n t y x) rho_s))
                (fmul (fmul (fdiv (fmul (gamma t y x) (Num 900.0))
                                  (fadd (tmean t y x) (Num 273.0))) u_2m)
                      (e_def t y x)))
          (fadd (delta t y x) (fmul (gamma t y x) (fadd (Num 1) (fmul (Num 0.34) u_2m)))))"

text \<open>
  The function itself, on the store \<open>h\<close> and the reference \<open>clm_ds\<close> the caller passes.
  Lines 343 to 348 write \<^verbatim>\<open>tmean\<close> and \<^verbatim>\<open>delta_r\<close> into the caller's dataset; from
  \<^verbatim>\<open>xr.merge\<close> on, \<^verbatim>\<open>clm_ds\<close> names the new dataset that the merge builds, which enters
  the store when it is returned. \<open>elevation_bygrid\<close> is the elevation service
  (\<^verbatim>\<open>py3dep.elevation_bygrid\<close>): it returns the elevation on the (y, x) grid or raises.
  \<^verbatim>\<open>isel(time=0)\<close> raises \<^verbatim>\<open>IndexError\<close> on an empty time axis, and \<^verbatim>\<open>keys[0]\<close> is the
  first data variable of the dataset as it was passed.
\<close>

definition pet_bygrid ::
  "(fnum list \<Rightarrow> fnum list \<Rightarrow> string \<Rightarrow> fnum \<Rightarrow> error + (nat \<Rightarrow> nat \<Rightarrow> fnum)) \<Rightarrow>
     timestamp dataset list \<Rightarrow> nat \<Rightarrow> (error + nat) \<times> timestamp dataset list" where
  "pet_bygrid elevation_bygrid h clm_ds =
    (let keys = ds_keys (h ! clm_ds)
     in case check_requirements (Iterable reqs_bygrid) keys of
       Inl e \<Rightarrow> (Inl e, h)
     | Inr _ \<Rightarrow>
        (let dates = ds_time (h ! clm_ds);
             h1 = h[clm_ds := ds_setitem (h ! clm_ds) ''tmean''
                     (new_array (gr_tmean (ds_getitem (h ! clm_ds) ''tmax'')
                                          (ds_getitem (h ! clm_ds) ''tmin'')))];
             h2 = h1[clm_ds := ds_setitem (h1 ! clm_ds) ''delta_r''
                     (new_array (gr_delta (ds_getitem (h1 ! clm_ds) ''tmean'')))];
             res = fmul (fst (ds_res (h2 ! clm_ds))) (Num 1000.0)
         in case elevation_bygrid (ds_x (h2 ! clm_ds)) (ds_y (h2 ! clm_ds))
                   (ds_crs (h2 ! clm_ds)) res of
              Inl e \<Rightarrow> (Inl e, h2)
            | Inr elev \<Rightarrow>
               (case xr_merge (h2 ! clm_ds) elev of
                  Inl e \<Rightarrow> (Inl e, h2)
                | Inr m0 \<Rightarrow>
                   if ds_time m0 = [] then (Inl IndexError, h2)
                   else
                    (let m1 = ds_setitem m0 ''elevation''
                                ((ds_vars m0 ''elevation'')\<lparr>da_cell :=
                                   gr_where (ds_getitem m0 ''elevation'')
                                            (ds_getitem m0 (hd keys))\<rparr>);
                         pa = gr_pa (ds_getitem m1 ''elevation'');
                         m2 = ds_setitem m1 ''gamma'' (new_array (gr_gamma pa));
                         m3 = ds_imul m2 ''vp'' (Num 0.001);
                         e_max = gr_e_max (ds_getitem m3 ''tmax'');
                         e_min = gr_e_min (ds_getitem m3 ''tmin'');
                         e_s = gr_e_s e_max e_min;
                         m4 = ds_setitem m3 ''e_def''
                                (new_array (gr_e_def e_s (ds_getitem m3 ''vp'')));
                         lat = gr_lat (ds_getitem m4 ''lat'');
                         m5 = set_time m4 (gr_dayofyear (ds_time m4));
                         r_surf = gr_r_surf (ds_getitem m5 ''srad'') (ds_getitem m5 ''dayl'');
                         jp = gr_jp (time_cells (ds_time m5));
                         d_r = gr_d_r jp;
                         delta_r = gr_delta_r jp;
                         phi = gr_phi lat;
                         w_s = gr_w_s phi delta_r;
                         r_aero = gr_r_aero d_r w_s phi delta_r;
                         rad_s = gr_rad_s (ds_getitem m5 ''elevation'') r_aero;
                         rad_ns = gr_rad_ns r_surf;
                         rad_nl = gr_rad_nl (ds_getitem m5 ''tmax'') (ds_getitem m5 ''tmin'')
                                    (ds_getitem m5 ''vp'') r_surf rad_s;
                         m6 = ds_setitem m5 ''rad_n'' (new_array (gr_rad_n rad_ns rad_nl));
                         m7 = ds_setitem m6 ''pet''
                                (new_array (gr_pet (ds_getitem m6 ''delta_r'')
                                    (ds_getitem m6 ''rad_n'') (ds_getitem m6 ''gamma'')
                                    (ds_getitem m6 ''tmean'') (ds_getitem m6 ''e_def'')));
                         m8 = ds_setitem m7 ''pet''
                                ((ds_vars m7 ''pet'')\<lparr>da_attrs := [(''units'', ''mm/day'')]\<rparr>);
                         m9 = set_time m8 dates;
                         m10 = ds_imul m9 ''vp'' (Num 1000.0);
                         m11 = drop_vars m10 [''delta_r'', ''gamma'', ''e_def'', ''rad_n'', ''tmean'']
                     in (Inr (fst (alloc h2 m11)), snd (alloc h2 m11))))))"

section \<open>The FAO-56 pipeline as the specification words it\<close>

text \<open>
  The formulas of the specification (section 4.2, steps 1 to 14), for one row: the
  temperatures in degrees Celsius, the vapour pressure in pascals, the radiation in
  \<open>W/m\<^sup>2\<close>, the day length in seconds, the day of the year, the latitude in degrees and
  the elevation in metres. These definitions follow the text of the specification, not
  the source, and are what the engines are compared with. Where the specification only
  names a term of FAO-56 (the inverse relative distance, the declination, the
  extraterrestrial radiation), the formula of FAO-56 is written out (its equations 23,
  24 and 21).
\<close>

definition fao56_tmean :: "fnum \<Rightarrow> fnum \<Rightarrow> fnum" where
  "fao56_tmean tmax tmin = fdiv (fadd tmax tmin) (Num 2)"

definition fao56_slope :: "fnum \<Rightarrow> fnum" where
  "fao56_slope tmean =
     fdiv (fmul (Num 4098)
             (fmul (Num 0.6108) (fexp (fdiv (fmul (Num 17.27) tmean) (fadd tmean (Num 237.3))))))
          (fpown (fadd tmean (Num 237.3)) 2)"

definition fao56_gamma :: "fnum \<Rightarrow> fnum" where
  "fao56_gamma elevation =
     fmul (fmul (Num 0.000665) (Num 101.3))
          (fpowr (fdiv (fsub (Num 293) (fmul (Num 0.0065) elevation)) (Num 293)) 5.26)"

definition fao56_vp_kpa :: "fnum \<Rightarrow> fnum" where
  "fao56_vp_kpa vp = fmul vp (Num 0.001)"

definition fao56_e_sat :: "fnum \<Rightarrow> fnum" where
  "fao56_e_sat temp =
     fmul (Num 0.6108) (fexp (fdiv (fmul (Num 17.27) temp) (fadd temp (Num 237.3))))"

definition fao56_vpd :: "fnum \<Rightarrow> fnum \<Rightarrow> fnum \<Rightarrow> fnum" where
  "fao56_vpd tmax tmin vp =
     fsub (fdiv (fadd (fao56_e_sat tmax) (fao56_e_sat tmin)) (Num 2)) (fao56_vp_kpa vp)"

definition fao56_surface :: "fnum \<Rightarrow> fnum \<Rightarrow> fnum" where
  "fao56_surface srad dayl = fmul (fmul srad dayl) (Num 0.000001)"

definition fao56_d_r :: "fnum \<Rightarrow> fnum" where
  "fao56_d_r jday = fadd (Num 1) (fmul (Num 0.033) (fcos (fdiv (fmul (Num (2 * pi)) jday) (Num 365))))"

definition fao56_decl :: "fnum \<Rightarrow> fnum" where
  "fao56_decl jday =
     fmul (Num 0.409) (fsin (fsub (fdiv (fmul (Num (2 * pi)) jday) (Num 365)) (Num 1.39)))"

definition fao56_phi :: "fnum \<Rightarrow> fnum" where
  "fao56_phi lat = fdiv (fmul lat (Num pi)) (Num 180)"

definition fao56_w_s :: "fnum \<Rightarrow> fnum \<Rightarrow> fnum" where
  "fao56_w_s phi decl = farccos (fmul (fneg (ftan phi)) (ftan decl))"

definition fao56_extraterrestrial :: "fnum \<Rightarrow> fnum \<Rightarrow> fnum" where
  "fao56_extraterrestrial jday lat =
     (let d_r = fao56_d_r jday; decl = fao56_decl jday; phi = fao56_phi lat;
          w_s = fao56_w_s phi decl
      in fmul (fmul (Num (24 * 60 / pi * 0.082)) d_r)
              (fadd (fmul (fmul w_s (fsin phi)) (fsin decl))
                    (fmul (fmul (fcos phi) (fcos decl)) (fsin w_s))))"

definition fao56_clear_sky :: "fnum \<Rightarrow> fnum \<Rightarrow> fnum \<Rightarrow> fnum" where
  "fao56_clear_sky elevation jday lat =
     fmul (fadd (Num 0.75) (fmul (Num 0.00002) elevation)) (fao56_extraterrestrial jday lat)"

definition fao56_net_shortwave :: "fnum \<Rightarrow> fnum" where
  "fao56_net_shortwave surface = fmul (Num (1 - 0.23)) surface"

text \<open>
  The net longwave term with the raw ratio of surface to clear-sky radiation:
  \<open>4.903e-9\<close> times the mean of \<open>(tmax + 273.16)\<^sup>4\<close> and \<open>(tmin + 273.16)\<^sup>4\<close>, times
  \<open>0.34 - 0.14 \<surd>vp\<close> (in kPa), times \<open>1.35 (surface / clear sky) - 0.35\<close>.
\<close>

definition fao56_net_longwave :: "fnum \<Rightarrow> fnum \<Rightarrow> fnum \<Rightarrow> fnum \<Rightarrow> fnum \<Rightarrow> fnum" where
  "fao56_net_longwave tmax tmin vp_kpa surface clear_sky =
     fmul (fmul (fmul (Num 0.000000004903)
                   (fdiv (fadd (fpown (fadd tmax (Num 273.16)) 4)
                               (fpown (fadd tmin (Num 273.16)) 4)) (Num 2)))
                (fsub (Num 0.34) (fmul (Num 0.14) (fsqrt vp_kpa))))
          (fsub (fmul (Num 1.35) (fdiv surface clear_sky)) (Num 0.35))"

definition fao56_net_radiation ::
  "fnum \<Rightarrow> fnum \<Rightarrow> fnum \<Rightarrow> fnum \<Rightarrow> fnum \<Rightarrow> fnum \<Rightarrow> fnum \<Rightarrow> fnum \<Rightarrow> fnum" where
  "fao56_net_radiation tmax tmin vp srad dayl jday lat elevation =
     fsub (fao56_net_shortwave (fao56_surface srad dayl))
          (fao56_net_longwave tmax tmin (fao56_vp_kpa vp) (fao56_surface srad dayl)
             (fao56_clear_sky elevation jday lat))"

definition fao56_pet ::
  "fnum \<Rightarrow> fnum \<Rightarrow> fnum \<Rightarrow> fnum \<Rightarrow> fnum \<Rightarrow> fnum \<Rightarrow> fnum \<Rightarrow> fnum \<Rightarrow> fnum" where
  "fao56_pet tmax tmin vp srad dayl jday lat elevation =
     (let tmean = fao56_tmean tmax tmin;
          slope = fao56_slope tmean;
          gamma = fao56_gamma elevation;
          net_radiation = fao56_net_radiation tmax tmin vp srad dayl jday lat elevation;
          vpd = fao56_vpd tmax tmin vp
      in fdiv (fadd (fmul (fmul (Num 0.408) slope) (fsub net_radiation (Num 0)))
                    (fmul (fmul (fdiv (fmul gamma (Num 900)) (fadd tmean (Num 273))) (Num 2.0)) vpd))
              (fadd slope (fmul gamma (Num (1 + 0.34 * 2.0)))))"

section \<open>Sample inputs\<close>

text \<open>
  A table of two days at the Equator and a service that answers 200 m; a table whose
  first minimum temperature is missing; the same two as one-cell grids.
\<close>

definition sample_index :: "timestamp list" where
  "sample_index =
     [\<lparr>ts_year = 2000, ts_month = 7, ts_day = 15\<rparr>, \<lparr>ts_year = 2000, ts_month = 7, ts_day = 16\<rparr>]"

definition sample_frame :: frame where
  "sample_frame =
     \<lparr>df_index = sample_index,
      df_columns = [''tmin (degrees C)'', ''tmax (degrees C)'', ''vp (Pa)'', ''srad (W/m2)'',
                    ''dayl (s)''],
      df_data = (\<lambda>c i.
         if c = ''tmin (degrees C)'' then Num 15
         else if c = ''tmax (degrees C)'' then Num 30
         else if c = ''vp (Pa)'' then Num 1500
         else if c = ''srad (W/m2)'' then Num 250
         else Num 50000)\<rparr>"


definition sample_elevation_bycoords :: "(fnum \<times> fnum) list \<Rightarrow> string \<Rightarrow> error + fnum list" where
  "sample_elevation_bycoords cs crs = Inr (map (\<lambda>c. Num 200) cs)"

definition failing_elevation_bycoords :: "(fnum \<times> fnum) list \<Rightarrow> string \<Rightarrow> error + fnum list" where
  "failing_elevation_bycoords cs crs = Inl (Raised ''ServiceError'')"

definition sample_dataset :: "timestamp dataset" where
  "sample_dataset =
     \<lparr>ds_time = sample_index, ds_y = [Num 0], ds_x = [Num 0], ds_res = (Num 1, Num 1),
      ds_crs = ''epsg:4326'',
      ds_keys = [''tmin'', ''tmax'', ''lat'', ''lon'', ''vp'', ''srad'', ''dayl''],
      ds_vars = (\<lambda>k. new_array (\<lambda>t y x.
         if k = ''tmin'' then Num 15
         else if k = ''tmax'' then Num 30
         else if k = ''lat'' then Num 0
         else if k = ''lon'' then Num 0
         else if k = ''vp'' then Num 1500
         else if k = ''srad'' then Num 250
         else Num 50000))\<rparr>"


definition sample_elevation_bygrid ::
  "fnum list \<Rightarrow> fnum list \<Rightarrow> string \<Rightarrow> fnum \<Rightarrow> error + (nat \<Rightarrow> nat \<Rightarrow> fnum)" where
  "sample_elevation_bygrid gx gy crs res = Inr (\<lambda>y x. Num 200)"

definition failing_elevation_bygrid ::
  "fnum list \<Rightarrow> fnum list \<Rightarrow> string \<Rightarrow> fnum \<Rightarrow> error + (nat \<Rightarrow> nat \<Rightarrow> fnum)" where
  "failing_elevation_bygrid gx gy crs res = Inl (Raised ''ServiceError'')"

section \<open>The requirement checker: results\<close>

text \<open>
  Claim C4. For an iterable list of required names the checker returns nothing when every
  required name is among the present names; otherwise it raises \<open>MissingItems\<close> carrying
  the required names that are not present, in the order of the requirement list, and the
  names it carries are exactly the required names that are absent. A requirement argument
  that is not iterable raises \<open>InvalidInputType\<close>, which is never a \<open>MissingItems\<close> error.
\<close>

theorem check_requirements_contract:
  "(set reqs \<subseteq> set cols \<longrightarrow> check_requirements (Iterable reqs) cols = Inr ()) \<and>
   (\<not> set reqs \<subseteq> set cols \<longrightarrow>
      check_requirements (Iterable reqs) cols
        = Inl (MissingItems (filter (\<lambda>r. r \<notin> set cols) reqs)) \<and>
      set (filter (\<lambda>r. r \<notin> set cols) reqs) = set reqs - set cols) \<and>
   check_requirements NotIterable cols = Inl (InvalidInputType ''reqs'' ''iterable'') \<and>
   (\<forall>m. check_requirements NotIterable cols \<noteq> Inl (MissingItems m))"
proof -
  have all_present: "filter (\<lambda>r. r \<notin> set cols) reqs = []" if "set reqs \<subseteq> set cols"
    using that by (auto simp: filter_empty_conv)
  have some_missing: "filter (\<lambda>r. r \<notin> set cols) reqs \<noteq> []" if "\<not> set reqs \<subseteq> set cols"
    using that by (auto simp: filter_empty_conv)
  show ?thesis
    using all_present some_missing by auto
qed

theorem check_requirements_contract_witness:
  "check_requirements (Iterable [''tmin'', ''tmax'']) [''tmax'', ''tmin'', ''vp''] = Inr () \<and>
   check_requirements (Iterable [''tmin'', ''vp'', ''srad'']) [''tmin'', ''dayl'']
     = Inl (MissingItems [''vp'', ''srad'']) \<and>
   check_requirements NotIterable [''tmin''] = Inl (InvalidInputType ''reqs'' ''iterable'')"
  using check_requirements_contract [of "[''tmin'', ''tmax'']" "[''tmax'', ''tmin'', ''vp'']"]
    check_requirements_contract [of "[''tmin'', ''vp'', ''srad'']" "[''tmin'', ''dayl'']"]
    check_requirements_contract [of "[]" "[''tmin'']"]
  by simp

section \<open>Facts about the arithmetic\<close>

lemma fmul_NaN [simp]: "fmul NaN v = NaN" "fmul v NaN = NaN"
  by (cases v; simp)+

lemma fadd_NaN [simp]: "fadd NaN v = NaN" "fadd v NaN = NaN"
  by (cases v; simp)+

lemma fdiv_NaN [simp]: "fdiv NaN v = NaN" "fdiv v NaN = NaN"
  by (cases v; simp)+

lemma fsub_NaN [simp]: "fsub NaN v = NaN" "fsub v NaN = NaN"
  by (cases v; simp add: fsub_def)+

lemma fmul_half_left: "fmul (Num 0.5) v = fdiv v (Num 2)"
  by (cases v) (simp_all add: inf_signed_def)

lemma fmul_half_right: "fmul v (Num 0.5) = fdiv v (Num 2)"
  by (cases v) (simp_all add: inf_signed_def)

lemma fmul_const_swap:
  "0 < a \<Longrightarrow> 0 < b \<Longrightarrow> fmul (fmul (Num a) v) (Num b) = fmul (fmul (Num b) (Num a)) v"
  by (cases v) (simp_all add: inf_signed_def mult_less_0_iff zero_less_mult_iff)

lemma fdiv_fmul_const:
  "0 < c \<Longrightarrow> fdiv (fmul (Num c) a) b = fmul (Num c) (fdiv a b)"
  by (cases a; cases b) (auto simp: inf_signed_def zero_less_mult_iff mult_less_0_iff)

text \<open>Rescaling by \<open>0.001\<close> and back by \<open>1000\<close> changes nothing when no rounding occurs.\<close>

lemma fmul_milli_kilo: "fmul (fmul v (Num 0.001)) (Num 1000) = v"
  by (cases v) (simp_all add: inf_signed_def)

section \<open>Facts about tables and the store\<close>

lemma check_requirements_ok:
  "set reqs \<subseteq> set cols \<Longrightarrow> check_requirements (Iterable reqs) cols = Inr ()"
  by (auto simp: filter_empty_conv)

lemma check_requirements_missing:
  "\<not> set reqs \<subseteq> set cols \<Longrightarrow>
     check_requirements (Iterable reqs) cols = Inl (MissingItems (filter (\<lambda>r. r \<notin> set cols) reqs))"
  by (auto simp: filter_empty_conv)

lemmas label_defs = tmin_c_def tmax_c_def srad_wm2_def va_pa_def dayl_s_def tmean_c_def pet_c_def
  unit_label_def units_def

lemma labels_distinct [simp]:
  "tmax_c a \<noteq> tmean_c" "tmin_c a \<noteq> tmean_c" "srad_wm2 a \<noteq> tmean_c" "dayl_s \<noteq> tmean_c"
  "va_pa \<noteq> tmean_c" "pet_c \<noteq> tmean_c"
  "tmax_c a \<noteq> va_pa" "tmin_c a \<noteq> va_pa" "srad_wm2 a \<noteq> va_pa" "dayl_s \<noteq> va_pa"
  "pet_c \<noteq> va_pa" "tmean_c \<noteq> va_pa" "tmean_c \<noteq> pet_c" "va_pa \<noteq> pet_c"
  "tmax_c a \<noteq> pet_c" "tmin_c a \<noteq> pet_c" "srad_wm2 a \<noteq> pet_c" "dayl_s \<noteq> pet_c"
  by (simp_all add: label_defs)

lemma getitem_setitem [simp]:
  "getitem (setitem df c s) k = (if k = c then s else getitem df k)"
  by (simp add: getitem_def setitem_def)

lemma df_index_setitem [simp]: "df_index (setitem df c s) = df_index df"
  by (simp add: setitem_def)

lemma df_columns_setitem:
  "df_columns (setitem df c s)
     = (if c \<in> set (df_columns df) then df_columns df else df_columns df @ [c])"
  by (simp add: setitem_def)

lemma getitem_drop_column [simp]: "getitem (drop_column df c) k = getitem df k"
  by (simp add: getitem_def drop_column_def)

lemma df_index_drop_column [simp]: "df_index (drop_column df c) = df_index df"
  by (simp add: drop_column_def)

lemma df_columns_drop_column:
  "df_columns (drop_column df c) = filter (\<lambda>k. k \<noteq> c) (df_columns df)"
  by (simp add: drop_column_def)

section \<open>The point engine: results\<close>

lemma pt_tmean_spec: "pt_tmean tmax tmin i = fao56_tmean (tmax i) (tmin i)"
  by (simp only: pt_tmean_def fao56_tmean_def fmul_half_left)

lemma pt_delta_v_spec: "pt_delta_v tmean i = fao56_slope (tmean i)"
  by (simp only: pt_delta_v_def fao56_slope_def)

lemma pt_gamma_spec: "pt_gamma (pt_pa elevation) = fao56_gamma elevation"
  unfolding pt_gamma_def pt_pa_def fao56_gamma_def
  by (subst fmul_const_swap) simp_all

lemma pt_e_def_spec:
  "pt_e_def (pt_e_s (pt_e_max tmax) (pt_e_min tmin)) (\<lambda>i. fmul (vp i) (Num 0.001)) i
     = fao56_vpd (tmax i) (tmin i) (vp i)"
  by (simp only: pt_e_def_def pt_e_s_def pt_e_max_def pt_e_min_def fao56_vpd_def fao56_e_sat_def
      fao56_vp_kpa_def fmul_half_right)

lemma pt_r_surf_spec: "pt_r_surf srad dayl i = fao56_surface (srad i) (dayl i)"
  by (simp only: pt_r_surf_def fao56_surface_def)

lemma pt_d_r_spec: "pt_d_r (pt_jp jday) i = fao56_d_r (jday i)"
  by (simp add: pt_d_r_def pt_jp_def fao56_d_r_def)

lemma pt_delta_r_spec: "pt_delta_r (pt_jp jday) i = fao56_decl (jday i)"
  by (simp add: pt_delta_r_def pt_jp_def fao56_decl_def)

lemma pt_phi_spec: "pt_phi coords = fao56_phi (snd coords)"
  by (simp add: pt_phi_def fao56_phi_def)

lemma pt_r_aero_spec:
  "pt_r_aero (pt_d_r (pt_jp jday)) (pt_w_s (pt_phi coords) (pt_delta_r (pt_jp jday)))
     (pt_phi coords) (pt_delta_r (pt_jp jday)) i
   = fao56_extraterrestrial (jday i) (snd coords)"
  unfolding pt_r_aero_def pt_w_s_def fao56_extraterrestrial_def Let_def fao56_w_s_def
  by (simp add: pt_d_r_spec pt_delta_r_spec pt_phi_spec)

lemma pt_rad_s_spec:
  "pt_rad_s elevation
     (pt_r_aero (pt_d_r (pt_jp jday)) (pt_w_s (pt_phi coords) (pt_delta_r (pt_jp jday)))
        (pt_phi coords) (pt_delta_r (pt_jp jday))) i
   = fao56_clear_sky elevation (jday i) (snd coords)"
  by (simp only: pt_rad_s_def fao56_clear_sky_def pt_r_aero_spec)

lemma pt_rad_ns_spec: "pt_rad_ns r_surf i = fao56_net_shortwave (r_surf i)"
  by (simp add: pt_rad_ns_def fao56_net_shortwave_def alb_def fsub_def)

lemma pt_rad_nl_spec:
  "pt_rad_nl tmax tmin vp r_surf rad_s i
     = fao56_net_longwave (tmax i) (tmin i) (vp i) (r_surf i) (rad_s i)"
  unfolding pt_rad_nl_def fao56_net_longwave_def
  by (subst fdiv_fmul_const) (simp_all only: fmul_half_right, simp)

lemma pt_row:
  "pt_pet (pt_delta_v (pt_tmean tmax tmin))
     (pt_rad_n (pt_rad_ns (pt_r_surf srad dayl))
        (pt_rad_nl tmax tmin (\<lambda>i. fmul (vp i) (Num 0.001)) (pt_r_surf srad dayl)
           (pt_rad_s elevation
              (pt_r_aero (pt_d_r (pt_jp jday)) (pt_w_s (pt_phi coords) (pt_delta_r (pt_jp jday)))
                 (pt_phi coords) (pt_delta_r (pt_jp jday))))))
     (pt_gamma (pt_pa elevation)) (pt_tmean tmax tmin)
     (pt_e_def (pt_e_s (pt_e_max tmax) (pt_e_min tmin)) (\<lambda>i. fmul (vp i) (Num 0.001))) i
   = fao56_pet (tmax i) (tmin i) (vp i) (srad i) (dayl i) (jday i) (snd coords) elevation"
  unfolding pt_pet_def fao56_pet_def Let_def fao56_net_radiation_def pt_rad_n_def
  by (simp only: pt_delta_v_spec pt_tmean_spec pt_gamma_spec pt_e_def_spec pt_rad_ns_spec
        pt_rad_nl_spec pt_rad_s_spec pt_r_surf_spec fao56_vp_kpa_def)
     (simp add: rho_s_def u_2m_def)

text \<open>What a successful call leaves in the store.\<close>

lemma pet_bycoords_returns:
  assumes "clm_df < length h"
    and "set (reqs_bycoords alt_unit) \<subseteq> set (df_columns (h ! clm_df))"
    and "elevation_bycoords [coords] crs = Inr (elevation # others)"
  shows "fst (pet_bycoords elevation_bycoords h clm_df coords crs alt_unit) = Inr (length h)"
    and "length (snd (pet_bycoords elevation_bycoords h clm_df coords crs alt_unit)) = Suc (length h)"
  using assms(1,3)
  by (simp_all add: pet_bycoords_def check_requirements_ok [OF assms(2)] Let_def alloc_def
      del: check_requirements.simps)

lemma pet_bycoords_pet_column:
  assumes "clm_df < length h"
    and "set (reqs_bycoords alt_unit) \<subseteq> set (df_columns (h ! clm_df))"
    and "elevation_bycoords [coords] crs = Inr (elevation # others)"
  shows "getitem (snd (pet_bycoords elevation_bycoords h clm_df coords crs alt_unit) ! length h)
           pet_c i
    = fao56_pet (getitem (h ! clm_df) (tmax_c alt_unit) i)
        (getitem (h ! clm_df) (tmin_c alt_unit) i)
        (getitem (h ! clm_df) va_pa i)
        (getitem (h ! clm_df) (srad_wm2 alt_unit) i)
        (getitem (h ! clm_df) dayl_s i)
        (Num (real (dayofyear (df_index (h ! clm_df) ! i))))
        (snd coords) elevation"
proof -
  have kpa: "(\<lambda>i. fmul (getitem (h ! clm_df) va_pa i) (Num (1 / 1000)))
      = (\<lambda>i. fmul (getitem (h ! clm_df) va_pa i) (Num 0.001))"
    by simp
  show ?thesis
    using assms(1,3)
    apply (simp add: pet_bycoords_def check_requirements_ok [OF assms(2)] Let_def alloc_def
        nth_append del: check_requirements.simps)
    apply (simp only: kpa pt_row)
    apply (simp add: pt_jday_def)
    done
qed

lemma pet_bycoords_vp_column:
  assumes "clm_df < length h"
    and "set (reqs_bycoords alt_unit) \<subseteq> set (df_columns (h ! clm_df))"
    and "elevation_bycoords [coords] crs = Inr (elevation # others)"
  shows "getitem (snd (pet_bycoords elevation_bycoords h clm_df coords crs alt_unit) ! length h)
           va_pa i
    = fmul (fmul (getitem (h ! clm_df) va_pa i) (Num 0.001)) (Num 1000)"
  using assms(1,3)
  by (simp add: pet_bycoords_def check_requirements_ok [OF assms(2)] Let_def alloc_def
        nth_append del: check_requirements.simps)

lemma pet_bycoords_columns:
  assumes "clm_df < length h"
    and "set (reqs_bycoords alt_unit) \<subseteq> set (df_columns (h ! clm_df))"
    and "elevation_bycoords [coords] crs = Inr (elevation # others)"
  shows "df_columns (snd (pet_bycoords elevation_bycoords h clm_df coords crs alt_unit) ! length h)
           = filter (\<lambda>k. k \<noteq> tmean_c) (df_columns (h ! clm_df))
               @ (if pet_c \<in> set (df_columns (h ! clm_df)) then [] else [pet_c])"
    and "set (df_columns (snd (pet_bycoords elevation_bycoords h clm_df coords crs alt_unit) ! clm_df))
           = set (df_columns (h ! clm_df)) \<union> {tmean_c, pet_c}"
proof -
  have vp: "va_pa \<in> set (df_columns (h ! clm_df))"
    using assms(2) by (simp add: reqs_bycoords_def)
  show "df_columns (snd (pet_bycoords elevation_bycoords h clm_df coords crs alt_unit) ! length h)
           = filter (\<lambda>k. k \<noteq> tmean_c) (df_columns (h ! clm_df))
               @ (if pet_c \<in> set (df_columns (h ! clm_df)) then [] else [pet_c])"
    using assms(1,3) vp
    by (simp add: pet_bycoords_def check_requirements_ok [OF assms(2)] Let_def alloc_def
        nth_append df_columns_setitem df_columns_drop_column del: check_requirements.simps)
  show "set (df_columns (snd (pet_bycoords elevation_bycoords h clm_df coords crs alt_unit) ! clm_df))
           = set (df_columns (h ! clm_df)) \<union> {tmean_c, pet_c}"
    using assms(1,3) vp
    by (auto simp add: pet_bycoords_def check_requirements_ok [OF assms(2)] Let_def alloc_def
        nth_append df_columns_setitem simp del: check_requirements.simps)
qed


text \<open>
  Claim C1. For a table that passes the requirement check (and an elevation service that
  answers), the point engine returns a table whose columns are the input's, without the
  mean temperature column, with \<^verbatim>\<open>pet (mm/day)\<close> appended (the column keeps its place if the
  input already had one of that name), and whose \<^verbatim>\<open>pet (mm/day)\<close> value in every row is the
  FAO-56 result of that row as the specification words it: mean temperature
  \<open>(tmax + tmin) / 2\<close>, the slope, the psychrometric constant from the elevation, wind speed
  2, soil heat flux 0, net radiation from steps 9 to 12, on the day of the year of the row's
  time stamp and the latitude \<^verbatim>\<open>coords[1]\<close>.
\<close>

theorem pet_bycoords_formula:
  assumes "clm_df < length h"
    and "set (reqs_bycoords alt_unit) \<subseteq> set (df_columns (h ! clm_df))"
    and "elevation_bycoords [coords] crs = Inr (elevation # others)"
  shows "\<exists>out h'.
           pet_bycoords elevation_bycoords h clm_df coords crs alt_unit = (Inr out, h') \<and>
           out < length h' \<and>
           df_columns (h' ! out)
             = filter (\<lambda>k. k \<noteq> tmean_c) (df_columns (h ! clm_df))
                 @ (if pet_c \<in> set (df_columns (h ! clm_df)) then [] else [pet_c]) \<and>
           (\<forall>i < length (df_index (h ! clm_df)).
              getitem (h' ! out) pet_c i
                = fao56_pet (getitem (h ! clm_df) (tmax_c alt_unit) i)
                    (getitem (h ! clm_df) (tmin_c alt_unit) i)
                    (getitem (h ! clm_df) va_pa i)
                    (getitem (h ! clm_df) (srad_wm2 alt_unit) i)
                    (getitem (h ! clm_df) dayl_s i)
                    (Num (real (dayofyear (df_index (h ! clm_df) ! i))))
                    (snd coords) elevation)"
proof -
  let ?run = "pet_bycoords elevation_bycoords h clm_df coords crs alt_unit"
  have "fst ?run = Inr (length h)"
    using assms by (rule pet_bycoords_returns(1))
  then have run: "?run = (Inr (length h), snd ?run)"
    by (simp add: prod_eq_iff)
  have "length (snd ?run) = Suc (length h)"
    using assms by (rule pet_bycoords_returns(2))
  then have len: "length h < length (snd ?run)"
    by simp
  have cols: "df_columns (snd ?run ! length h)
      = filter (\<lambda>k. k \<noteq> tmean_c) (df_columns (h ! clm_df))
          @ (if pet_c \<in> set (df_columns (h ! clm_df)) then [] else [pet_c])"
    using assms by (rule pet_bycoords_columns(1))
  have pet: "getitem (snd ?run ! length h) pet_c i
      = fao56_pet (getitem (h ! clm_df) (tmax_c alt_unit) i)
          (getitem (h ! clm_df) (tmin_c alt_unit) i)
          (getitem (h ! clm_df) va_pa i)
          (getitem (h ! clm_df) (srad_wm2 alt_unit) i)
          (getitem (h ! clm_df) dayl_s i)
          (Num (real (dayofyear (df_index (h ! clm_df) ! i))))
          (snd coords) elevation" for i
    using assms by (rule pet_bycoords_pet_column)
  from run len cols pet show ?thesis
    by blast
qed

theorem pet_bycoords_formula_witness:
  "\<exists>out h'.
     pet_bycoords sample_elevation_bycoords [sample_frame] 0 (Num 0, Num 0) ''epsg:4326'' False
       = (Inr out, h') \<and>
     out < length h' \<and>
     df_columns (h' ! out)
       = [''tmin (degrees C)'', ''tmax (degrees C)'', ''vp (Pa)'', ''srad (W/m2)'', ''dayl (s)'',
          ''pet (mm/day)''] \<and>
     getitem (h' ! out) pet_c 0
       = fao56_pet (Num 30) (Num 15) (Num 1500) (Num 250) (Num 50000) (Num 197) (Num 0) (Num 200)"
proof -
  have ref: "0 < length [sample_frame]"
    by simp
  have reqs: "set (reqs_bycoords False) \<subseteq> set (df_columns ([sample_frame] ! 0))"
    by (simp add: reqs_bycoords_def label_defs sample_frame_def)
  have elev: "sample_elevation_bycoords [(Num 0, Num 0)] ''epsg:4326'' = Inr (Num 200 # [])"
    by (simp add: sample_elevation_bycoords_def)
  obtain out h' where run:
    "pet_bycoords sample_elevation_bycoords [sample_frame] 0 (Num 0, Num 0) ''epsg:4326'' False
       = (Inr out, h')"
    "out < length h'"
    "df_columns (h' ! out)
       = filter (\<lambda>k. k \<noteq> tmean_c) (df_columns ([sample_frame] ! 0))
           @ (if pet_c \<in> set (df_columns ([sample_frame] ! 0)) then [] else [pet_c])"
    "\<forall>i < length (df_index ([sample_frame] ! 0)).
       getitem (h' ! out) pet_c i
         = fao56_pet (getitem ([sample_frame] ! 0) (tmax_c False) i)
             (getitem ([sample_frame] ! 0) (tmin_c False) i)
             (getitem ([sample_frame] ! 0) va_pa i)
             (getitem ([sample_frame] ! 0) (srad_wm2 False) i)
             (getitem ([sample_frame] ! 0) dayl_s i)
             (Num (real (dayofyear (df_index ([sample_frame] ! 0) ! i))))
             (snd (Num 0, Num 0)) (Num 200)"
    using ref reqs elev
    by (rule pet_bycoords_formula [THEN exE]) blast
  have cols: "df_columns (h' ! out)
       = [''tmin (degrees C)'', ''tmax (degrees C)'', ''vp (Pa)'', ''srad (W/m2)'', ''dayl (s)'',
          ''pet (mm/day)'']"
    using run(3) by (simp add: sample_frame_def label_defs)
  have "0 < length (df_index ([sample_frame] ! 0))"
    by (simp add: sample_frame_def sample_index_def)
  with run(4) have "getitem (h' ! out) pet_c 0
         = fao56_pet (getitem ([sample_frame] ! 0) (tmax_c False) 0)
             (getitem ([sample_frame] ! 0) (tmin_c False) 0)
             (getitem ([sample_frame] ! 0) va_pa 0)
             (getitem ([sample_frame] ! 0) (srad_wm2 False) 0)
             (getitem ([sample_frame] ! 0) dayl_s 0)
             (Num (real (dayofyear (df_index ([sample_frame] ! 0) ! 0))))
             (snd (Num 0, Num 0)) (Num 200)"
    by blast
  then have "getitem (h' ! out) pet_c 0
       = fao56_pet (Num 30) (Num 15) (Num 1500) (Num 250) (Num 50000) (Num 197) (Num 0) (Num 200)"
    by (simp add: sample_frame_def sample_index_def getitem_def label_defs dayofyear_def
        month_lengths_def is_leap_year_def)
  with run(1,2) cols show ?thesis
    by blast
qed

text \<open>
  Claim C10. When the point engine succeeds, the table it returns is a new object of the
  store, not the caller's: the returned table has no \<^verbatim>\<open>tmean (deg c)\<close> column, while the
  caller's table, mutated in place, has both the \<^verbatim>\<open>tmean (deg c)\<close> and the
  \<^verbatim>\<open>pet (mm/day)\<close> column after the call.
\<close>

theorem pet_bycoords_new_table:
  assumes "clm_df < length h"
    and "set (reqs_bycoords alt_unit) \<subseteq> set (df_columns (h ! clm_df))"
    and "elevation_bycoords [coords] crs = Inr (elevation # others)"
  shows "\<exists>out h'.
           pet_bycoords elevation_bycoords h clm_df coords crs alt_unit = (Inr out, h') \<and>
           out < length h' \<and> length h \<le> out \<and> out \<noteq> clm_df \<and>
           tmean_c \<notin> set (df_columns (h' ! out)) \<and>
           pet_c \<in> set (df_columns (h' ! out)) \<and>
           tmean_c \<in> set (df_columns (h' ! clm_df)) \<and>
           pet_c \<in> set (df_columns (h' ! clm_df))"
proof -
  let ?run = "pet_bycoords elevation_bycoords h clm_df coords crs alt_unit"
  have "fst ?run = Inr (length h)"
    using assms by (rule pet_bycoords_returns(1))
  then have run: "?run = (Inr (length h), snd ?run)"
    by (simp add: prod_eq_iff)
  have "length (snd ?run) = Suc (length h)"
    using assms by (rule pet_bycoords_returns(2))
  then have len: "length h < length (snd ?run)"
    by simp
  have "df_columns (snd ?run ! length h)
      = filter (\<lambda>k. k \<noteq> tmean_c) (df_columns (h ! clm_df))
          @ (if pet_c \<in> set (df_columns (h ! clm_df)) then [] else [pet_c])"
    using assms by (rule pet_bycoords_columns(1))
  then have returned: "tmean_c \<notin> set (df_columns (snd ?run ! length h))"
    "pet_c \<in> set (df_columns (snd ?run ! length h))"
    by auto
  have "set (df_columns (snd ?run ! clm_df)) = set (df_columns (h ! clm_df)) \<union> {tmean_c, pet_c}"
    using assms by (rule pet_bycoords_columns(2))
  then have callers: "tmean_c \<in> set (df_columns (snd ?run ! clm_df))"
    "pet_c \<in> set (df_columns (snd ?run ! clm_df))"
    by auto
  from run len returned callers assms(1) show ?thesis
    by (intro exI [of _ "length h"] exI [of _ "snd ?run"]) simp
qed

theorem pet_bycoords_new_table_witness:
  "\<exists>out h'.
     pet_bycoords sample_elevation_bycoords [sample_frame] 0 (Num 0, Num 0) ''epsg:4326'' False
       = (Inr out, h') \<and>
     out \<noteq> 0 \<and>
     tmean_c \<notin> set (df_columns (h' ! out)) \<and>
     tmean_c \<in> set (df_columns (h' ! 0)) \<and>
     pet_c \<in> set (df_columns (h' ! 0))"
proof -
  have ref: "0 < length [sample_frame]"
    by simp
  have reqs: "set (reqs_bycoords False) \<subseteq> set (df_columns ([sample_frame] ! 0))"
    by (simp add: reqs_bycoords_def label_defs sample_frame_def)
  have elev: "sample_elevation_bycoords [(Num 0, Num 0)] ''epsg:4326'' = Inr (Num 200 # [])"
    by (simp add: sample_elevation_bycoords_def)
  have "\<exists>out h'.
     pet_bycoords sample_elevation_bycoords [sample_frame] 0 (Num 0, Num 0) ''epsg:4326'' False
       = (Inr out, h') \<and>
     out < length h' \<and> length [sample_frame] \<le> out \<and> out \<noteq> 0 \<and>
     tmean_c \<notin> set (df_columns (h' ! out)) \<and>
     pet_c \<in> set (df_columns (h' ! out)) \<and>
     tmean_c \<in> set (df_columns (h' ! 0)) \<and>
     pet_c \<in> set (df_columns (h' ! 0))"
    using ref reqs elev by (rule pet_bycoords_new_table)
  then show ?thesis
    by blast
qed

section \<open>Facts about datasets\<close>

lemma ds_getitem_setitem [simp]:
  "ds_getitem (ds_setitem ds k a) j = (if j = k then da_cell a else ds_getitem ds j)"
  by (simp add: ds_getitem_def ds_setitem_def)

lemma ds_vars_setitem [simp]:
  "ds_vars (ds_setitem ds k a) j = (if j = k then a else ds_vars ds j)"
  by (simp add: ds_setitem_def)

lemma ds_keys_setitem:
  "ds_keys (ds_setitem ds k a) = (if k \<in> set (ds_keys ds) then ds_keys ds else ds_keys ds @ [k])"
  by (simp add: ds_setitem_def)

lemma ds_coords_setitem [simp]:
  "ds_time (ds_setitem ds k a) = ds_time ds"
  "ds_y (ds_setitem ds k a) = ds_y ds"
  "ds_x (ds_setitem ds k a) = ds_x ds"
  "ds_res (ds_setitem ds k a) = ds_res ds"
  "ds_crs (ds_setitem ds k a) = ds_crs ds"
  by (simp_all add: ds_setitem_def)

lemma ds_getitem_imul [simp]:
  "ds_getitem (ds_imul ds k c) j
     = (if j = k then (\<lambda>t y x. fmul (ds_getitem ds k t y x) c) else ds_getitem ds j)"
  by (simp add: ds_imul_def)

lemma ds_keys_imul:
  "ds_keys (ds_imul ds k c) = (if k \<in> set (ds_keys ds) then ds_keys ds else ds_keys ds @ [k])"
  by (simp add: ds_imul_def ds_keys_setitem)

lemma ds_time_imul [simp]: "ds_time (ds_imul ds k c) = ds_time ds"
  by (simp add: ds_imul_def)

lemma ds_getitem_set_time [simp]: "ds_getitem (set_time ds labels) j = ds_getitem ds j"
  by (simp add: ds_getitem_def set_time_def)

lemma ds_vars_set_time [simp]: "ds_vars (set_time ds labels) = ds_vars ds"
  by (simp add: set_time_def)

lemma ds_keys_set_time [simp]: "ds_keys (set_time ds labels) = ds_keys ds"
  by (simp add: set_time_def)

lemma ds_time_set_time [simp]: "ds_time (set_time ds labels) = labels"
  by (simp add: set_time_def)

lemma ds_getitem_drop_vars [simp]: "ds_getitem (drop_vars ds ks) j = ds_getitem ds j"
  by (simp add: ds_getitem_def drop_vars_def)

lemma ds_keys_drop_vars: "ds_keys (drop_vars ds ks) = filter (\<lambda>k. k \<notin> set ks) (ds_keys ds)"
  by (simp add: drop_vars_def)

lemma ds_time_drop_vars [simp]: "ds_time (drop_vars ds ks) = ds_time ds"
  by (simp add: drop_vars_def)

lemma xr_merge_new:
  "''elevation'' \<notin> set (ds_keys ds) \<Longrightarrow>
     xr_merge ds elev = Inr (ds_setitem ds ''elevation'' (new_array (\<lambda>t y x. elev y x)))"
  by (simp add: xr_merge_def)

lemma xr_merge_Inr:
  assumes "xr_merge ds elev = Inr m"
  shows "ds_time m = ds_time ds"
    and "k \<noteq> ''elevation'' \<Longrightarrow> ds_getitem m k = ds_getitem ds k"
    and "ds_keys m
           = (if ''elevation'' \<in> set (ds_keys ds) then ds_keys ds else ds_keys ds @ [''elevation''])"
  using assms by (auto simp: xr_merge_def ds_keys_setitem split: if_splits)

lemma da_cell_new_array [simp]: "da_cell (new_array c) = c"
  by (simp add: new_array_def)

section \<open>The grid engine: results\<close>

lemma pet_bygrid_time:
  assumes "pet_bygrid elevation_bygrid h clm_ds = (Inr out, h')" and "clm_ds < length h"
  shows "out = length h" and "length h' = Suc (length h)"
    and "ds_time (h' ! out) = ds_time (h ! clm_ds)"
  using assms
  by (auto simp: pet_bygrid_def Let_def alloc_def nth_append
      split: sum.splits if_splits simp del: check_requirements.simps)



lemma pet_bygrid_returns:
  assumes "clm_ds < length h"
    and "set reqs_bygrid \<subseteq> set (ds_keys (h ! clm_ds))"
    and "elevation_bygrid (ds_x (h ! clm_ds)) (ds_y (h ! clm_ds)) (ds_crs (h ! clm_ds))
           (fmul (fst (ds_res (h ! clm_ds))) (Num 1000)) = Inr elev"
    and "''elevation'' \<notin> set (ds_keys (h ! clm_ds))"
    and "ds_time (h ! clm_ds) \<noteq> []"
  shows "fst (pet_bygrid elevation_bygrid h clm_ds) = Inr (length h)"
  using assms(1,3,4,5)
  by (simp add: pet_bygrid_def check_requirements_ok [OF assms(2)] Let_def alloc_def
      xr_merge_new ds_keys_setitem del: check_requirements.simps)

lemma pet_bygrid_keys:
  assumes "pet_bygrid elevation_bygrid h clm_ds = (Inr out, h')" and "clm_ds < length h"
    and "set (ds_keys (h ! clm_ds))
           \<inter> {''tmean'', ''delta_r'', ''elevation'', ''gamma'', ''e_def'', ''rad_n'', ''pet''} = {}"
  shows "ds_keys (h' ! out) = ds_keys (h ! clm_ds) @ [''elevation'', ''pet'']"
proof -
  have vp: "''vp'' \<in> set (ds_keys (h ! clm_ds))"
    using assms(1)
    by (auto simp: pet_bygrid_def Let_def reqs_bygrid_def split: sum.splits if_splits)
  have keep: "filter (\<lambda>k. k \<noteq> ''delta_r'' \<and> k \<noteq> ''gamma'' \<and> k \<noteq> ''e_def'' \<and> k \<noteq> ''rad_n''
                  \<and> k \<noteq> ''tmean'') (ds_keys (h ! clm_ds)) = ds_keys (h ! clm_ds)"
    using assms(3) by (auto simp: filter_id_conv)
  show ?thesis
    using assms vp keep
    by (auto simp: pet_bygrid_def Let_def alloc_def nth_append xr_merge_Inr(3) ds_keys_setitem
        ds_keys_imul ds_keys_drop_vars
        split: sum.splits if_splits simp del: check_requirements.simps)
qed

lemma pet_bygrid_lookup_error:
  assumes "clm_ds < length h"
    and "set reqs_bygrid \<subseteq> set (ds_keys (h ! clm_ds))"
    and "elevation_bygrid (ds_x (h ! clm_ds)) (ds_y (h ! clm_ds)) (ds_crs (h ! clm_ds))
           (fmul (fst (ds_res (h ! clm_ds))) (Num 1000)) = Inl e"
  shows "fst (pet_bygrid elevation_bygrid h clm_ds) = Inl e"
    and "length (snd (pet_bygrid elevation_bygrid h clm_ds)) = length h"
    and "set (ds_keys (snd (pet_bygrid elevation_bygrid h clm_ds) ! clm_ds))
           = set (ds_keys (h ! clm_ds)) \<union> {''tmean'', ''delta_r''}"
  using assms(1,3)
  by (auto simp add: pet_bygrid_def check_requirements_ok [OF assms(2)] Let_def
      ds_keys_setitem simp del: check_requirements.simps)

lemma pet_bycoords_lookup_error:
  assumes "clm_df < length h"
    and "set (reqs_bycoords alt_unit) \<subseteq> set (df_columns (h ! clm_df))"
    and "elevation_bycoords [coords] crs = Inl e"
  shows "fst (pet_bycoords elevation_bycoords h clm_df coords crs alt_unit) = Inl e"
    and "length (snd (pet_bycoords elevation_bycoords h clm_df coords crs alt_unit)) = length h"
    and "set (df_columns (snd (pet_bycoords elevation_bycoords h clm_df coords crs alt_unit) ! clm_df))
           = set (df_columns (h ! clm_df)) \<union> {tmean_c}"
  using assms(1,3)
  by (auto simp add: pet_bycoords_def check_requirements_ok [OF assms(2)] Let_def
      df_columns_setitem simp del: check_requirements.simps)

lemma pet_bycoords_outcome:
  assumes "clm_df < length h"
  shows "(\<exists>e. fst (pet_bycoords elevation_bycoords h clm_df coords crs alt_unit) = Inl e \<and>
              length (snd (pet_bycoords elevation_bycoords h clm_df coords crs alt_unit)) = length h) \<or>
         (fst (pet_bycoords elevation_bycoords h clm_df coords crs alt_unit) = Inr (length h) \<and>
          length (snd (pet_bycoords elevation_bycoords h clm_df coords crs alt_unit)) = Suc (length h) \<and>
          pet_c \<in> set (df_columns
             (snd (pet_bycoords elevation_bycoords h clm_df coords crs alt_unit) ! length h)))"
  using assms
  by (auto simp add: pet_bycoords_def Let_def alloc_def nth_append df_columns_setitem
      df_columns_drop_column split: sum.splits list.splits simp del: check_requirements.simps)

lemma pet_bygrid_outcome:
  assumes "clm_ds < length h"
  shows "(\<exists>e. fst (pet_bygrid elevation_bygrid h clm_ds) = Inl e \<and>
              length (snd (pet_bygrid elevation_bygrid h clm_ds)) = length h) \<or>
         (fst (pet_bygrid elevation_bygrid h clm_ds) = Inr (length h) \<and>
          length (snd (pet_bygrid elevation_bygrid h clm_ds)) = Suc (length h) \<and>
          ''pet'' \<in> set (ds_keys (snd (pet_bygrid elevation_bygrid h clm_ds) ! length h)))"
  using assms
  by (auto simp add: pet_bygrid_def Let_def alloc_def nth_append ds_keys_setitem
      ds_keys_imul ds_keys_drop_vars split: sum.splits simp del: check_requirements.simps)


lemma sample_grid_facts:
  "set reqs_bygrid \<subseteq> set (ds_keys ([sample_dataset] ! 0))"
  "sample_elevation_bygrid (ds_x ([sample_dataset] ! 0)) (ds_y ([sample_dataset] ! 0))
     (ds_crs ([sample_dataset] ! 0)) (fmul (fst (ds_res ([sample_dataset] ! 0))) (Num 1000))
     = Inr (\<lambda>y x. Num 200)"
  "''elevation'' \<notin> set (ds_keys ([sample_dataset] ! 0))"
  "ds_time ([sample_dataset] ! 0) \<noteq> []"
  by (simp_all add: sample_dataset_def reqs_bygrid_def sample_elevation_bygrid_def
      sample_index_def)


text \<open>
  Claim C6. Whenever the grid engine returns a dataset, the time axis of that dataset is
  the time axis of the input, the original time stamps and not the day numbers used in
  between. It does return one for every dataset that passes the requirement check when
  the elevation service answers, the dataset has no variable called \<^verbatim>\<open>elevation\<close> yet and
  its time axis is not empty.
\<close>

theorem pet_bygrid_time_axis:
  assumes "clm_ds < length h"
  shows "(\<forall>out h'. pet_bygrid elevation_bygrid h clm_ds = (Inr out, h') \<longrightarrow>
            out < length h' \<and> ds_time (h' ! out) = ds_time (h ! clm_ds)) \<and>
         (set reqs_bygrid \<subseteq> set (ds_keys (h ! clm_ds)) \<and>
          elevation_bygrid (ds_x (h ! clm_ds)) (ds_y (h ! clm_ds)) (ds_crs (h ! clm_ds))
            (fmul (fst (ds_res (h ! clm_ds))) (Num 1000)) = Inr elev \<and>
          ''elevation'' \<notin> set (ds_keys (h ! clm_ds)) \<and> ds_time (h ! clm_ds) \<noteq> [] \<longrightarrow>
          (\<exists>out h'. pet_bygrid elevation_bygrid h clm_ds = (Inr out, h')))"
proof (intro conjI allI impI)
  fix out h'
  assume run: "pet_bygrid elevation_bygrid h clm_ds = (Inr out, h')"
  from run assms have "out = length h" and "length h' = Suc (length h)"
    by (rule pet_bygrid_time)+
  then show "out < length h'"
    by simp
  from run assms show "ds_time (h' ! out) = ds_time (h ! clm_ds)"
    by (rule pet_bygrid_time(3))
next
  assume ok: "set reqs_bygrid \<subseteq> set (ds_keys (h ! clm_ds)) \<and>
      elevation_bygrid (ds_x (h ! clm_ds)) (ds_y (h ! clm_ds)) (ds_crs (h ! clm_ds))
        (fmul (fst (ds_res (h ! clm_ds))) (Num 1000)) = Inr elev \<and>
      ''elevation'' \<notin> set (ds_keys (h ! clm_ds)) \<and> ds_time (h ! clm_ds) \<noteq> []"
  have "fst (pet_bygrid elevation_bygrid h clm_ds) = Inr (length h)"
    using assms ok by (intro pet_bygrid_returns [where elev = elev]) simp_all
  then show "\<exists>out h'. pet_bygrid elevation_bygrid h clm_ds = (Inr out, h')"
    by (metis prod.collapse)
qed

theorem pet_bygrid_time_axis_witness:
  "\<exists>out h'. pet_bygrid sample_elevation_bygrid [sample_dataset] 0 = (Inr out, h') \<and>
     ds_time (h' ! out) = sample_index"
proof -
  have ref: "0 < length [sample_dataset]"
    by simp
  note inst = pet_bygrid_time_axis [OF ref, of sample_elevation_bygrid "\<lambda>y x. Num 200"]
  from inst sample_grid_facts obtain out h' where
    run: "pet_bygrid sample_elevation_bygrid [sample_dataset] 0 = (Inr out, h')"
    by blast
  with inst have "ds_time (h' ! out) = ds_time ([sample_dataset] ! 0)"
    by blast
  then have "ds_time (h' ! out) = sample_index"
    by (simp add: sample_dataset_def)
  with run show ?thesis
    by blast
qed



section \<open>The net longwave term\<close>




section \<open>The variables of the returned dataset\<close>

text \<open>
  Claim C2, at the dataset \<open>sample_dataset\<close>, which has the seven required variables
  and no other: the returned dataset has nine variables, the seven of the input,
  \<^verbatim>\<open>elevation\<close> and \<^verbatim>\<open>pet\<close>. Line 410 drops \<^verbatim>\<open>delta_r\<close>, \<^verbatim>\<open>gamma\<close>, \<^verbatim>\<open>e_def\<close>,
  \<^verbatim>\<open>rad_n\<close> and \<^verbatim>\<open>tmean\<close>, and leaves the merged \<^verbatim>\<open>elevation\<close> in place.
\<close>

theorem pet_bygrid_keeps_elevation:
  "fst (pet_bygrid sample_elevation_bygrid [sample_dataset] 0) = Inr 1 \<and>
   ds_keys (snd (pet_bygrid sample_elevation_bygrid [sample_dataset] 0) ! 1)
     = [''tmin'', ''tmax'', ''lat'', ''lon'', ''vp'', ''srad'', ''dayl'', ''elevation'', ''pet'']"
proof -
  let ?run = "pet_bygrid sample_elevation_bygrid [sample_dataset] 0"
  have ref: "0 < length [sample_dataset]"
    by simp
  have "fst ?run = Inr (length [sample_dataset])"
    using ref sample_grid_facts by (rule pet_bygrid_returns)
  then have run: "?run = (Inr 1, snd ?run)"
    by (simp add: prod_eq_iff)
  have fresh: "set (ds_keys ([sample_dataset] ! 0))
      \<inter> {''tmean'', ''delta_r'', ''elevation'', ''gamma'', ''e_def'', ''rad_n'', ''pet''} = {}"
    by (simp add: sample_dataset_def)
  have "ds_keys (snd ?run ! 1) = ds_keys ([sample_dataset] ! 0) @ [''elevation'', ''pet'']"
    using run ref fresh by (rule pet_bygrid_keys)
  then have keys: "ds_keys (snd ?run ! 1)
      = [''tmin'', ''tmax'', ''lat'', ''lon'', ''vp'', ''srad'', ''dayl'', ''elevation'', ''pet'']"
    by (simp add: sample_dataset_def)
  from run have "fst ?run = Inr 1"
    by (simp add: prod_eq_iff)
  with keys show ?thesis
    by (rule conjI [rotated])
qed

section \<open>Failure of the elevation service\<close>

text \<open>
  Claim C8. When the elevation service raises, each engine raises the same error and
  returns no container: the store has no new object. The caller's container has been
  written to by then (the point engine has added the mean temperature column). And a call
  ends in one of two ways only: with an error and no new object, or with a new container
  that has the PET column or variable.
\<close>

theorem elevation_failure_propagates:
  assumes "clm_df < length hp" and "clm_ds < length hg"
  shows "(set (reqs_bycoords alt_unit) \<subseteq> set (df_columns (hp ! clm_df)) \<and>
          elevation_bycoords [coords] crs = Inl e \<longrightarrow>
            (\<exists>h'. pet_bycoords elevation_bycoords hp clm_df coords crs alt_unit = (Inl e, h') \<and>
                  length h' = length hp \<and> tmean_c \<in> set (df_columns (h' ! clm_df)))) \<and>
         (set reqs_bygrid \<subseteq> set (ds_keys (hg ! clm_ds)) \<and>
          elevation_bygrid (ds_x (hg ! clm_ds)) (ds_y (hg ! clm_ds)) (ds_crs (hg ! clm_ds))
            (fmul (fst (ds_res (hg ! clm_ds))) (Num 1000)) = Inl e' \<longrightarrow>
            (\<exists>h'. pet_bygrid elevation_bygrid hg clm_ds = (Inl e', h') \<and>
                  length h' = length hg \<and> ''tmean'' \<in> set (ds_keys (h' ! clm_ds)))) \<and>
         ((\<exists>err h'. pet_bycoords elevation_bycoords hp clm_df coords crs alt_unit = (Inl err, h') \<and>
                  length h' = length hp) \<or>
          (\<exists>h'. pet_bycoords elevation_bycoords hp clm_df coords crs alt_unit
                   = (Inr (length hp), h') \<and>
                length h' = Suc (length hp) \<and> pet_c \<in> set (df_columns (h' ! length hp)))) \<and>
         ((\<exists>err h'. pet_bygrid elevation_bygrid hg clm_ds = (Inl err, h') \<and>
                  length h' = length hg) \<or>
          (\<exists>h'. pet_bygrid elevation_bygrid hg clm_ds = (Inr (length hg), h') \<and>
                length h' = Suc (length hg) \<and> ''pet'' \<in> set (ds_keys (h' ! length hg))))"
proof (intro conjI impI)
  let ?run = "pet_bycoords elevation_bycoords hp clm_df coords crs alt_unit"
  assume "set (reqs_bycoords alt_unit) \<subseteq> set (df_columns (hp ! clm_df)) \<and>
      elevation_bycoords [coords] crs = Inl e"
  then have reqs: "set (reqs_bycoords alt_unit) \<subseteq> set (df_columns (hp ! clm_df))"
    and fails: "elevation_bycoords [coords] crs = Inl e"
    by simp_all
  have "fst ?run = Inl e"
    using assms(1) reqs fails by (rule pet_bycoords_lookup_error(1))
  moreover have "length (snd ?run) = length hp"
    using assms(1) reqs fails by (rule pet_bycoords_lookup_error(2))
  moreover have "set (df_columns (snd ?run ! clm_df)) = set (df_columns (hp ! clm_df)) \<union> {tmean_c}"
    using assms(1) reqs fails by (rule pet_bycoords_lookup_error(3))
  ultimately show "\<exists>h'. ?run = (Inl e, h') \<and> length h' = length hp \<and>
      tmean_c \<in> set (df_columns (h' ! clm_df))"
    by (intro exI [of _ "snd ?run"]) (simp add: prod_eq_iff)
next
  let ?run = "pet_bygrid elevation_bygrid hg clm_ds"
  assume "set reqs_bygrid \<subseteq> set (ds_keys (hg ! clm_ds)) \<and>
      elevation_bygrid (ds_x (hg ! clm_ds)) (ds_y (hg ! clm_ds)) (ds_crs (hg ! clm_ds))
        (fmul (fst (ds_res (hg ! clm_ds))) (Num 1000)) = Inl e'"
  then have reqs: "set reqs_bygrid \<subseteq> set (ds_keys (hg ! clm_ds))"
    and fails: "elevation_bygrid (ds_x (hg ! clm_ds)) (ds_y (hg ! clm_ds)) (ds_crs (hg ! clm_ds))
        (fmul (fst (ds_res (hg ! clm_ds))) (Num 1000)) = Inl e'"
    by simp_all
  have "fst ?run = Inl e'"
    using assms(2) reqs fails by (rule pet_bygrid_lookup_error(1))
  moreover have "length (snd ?run) = length hg"
    using assms(2) reqs fails by (rule pet_bygrid_lookup_error(2))
  moreover have "set (ds_keys (snd ?run ! clm_ds))
      = set (ds_keys (hg ! clm_ds)) \<union> {''tmean'', ''delta_r''}"
    using assms(2) reqs fails by (rule pet_bygrid_lookup_error(3))
  ultimately show "\<exists>h'. ?run = (Inl e', h') \<and> length h' = length hg \<and>
      ''tmean'' \<in> set (ds_keys (h' ! clm_ds))"
    by (intro exI [of _ "snd ?run"]) (simp add: prod_eq_iff)
next
  let ?run = "pet_bycoords elevation_bycoords hp clm_df coords crs alt_unit"
  from pet_bycoords_outcome [OF assms(1), of elevation_bycoords coords crs alt_unit]
  show "(\<exists>err h'. ?run = (Inl err, h') \<and> length h' = length hp) \<or>
      (\<exists>h'. ?run = (Inr (length hp), h') \<and> length h' = Suc (length hp) \<and>
            pet_c \<in> set (df_columns (h' ! length hp)))"
    by (metis prod.collapse)
next
  let ?run = "pet_bygrid elevation_bygrid hg clm_ds"
  from pet_bygrid_outcome [OF assms(2), of elevation_bygrid]
  show "(\<exists>err h'. ?run = (Inl err, h') \<and> length h' = length hg) \<or>
      (\<exists>h'. ?run = (Inr (length hg), h') \<and> length h' = Suc (length hg) \<and>
            ''pet'' \<in> set (ds_keys (h' ! length hg)))"
    by (metis prod.collapse)
qed

theorem elevation_failure_propagates_witness:
  "(\<exists>h'. pet_bycoords failing_elevation_bycoords [sample_frame] 0 (Num 0, Num 0) ''epsg:4326'' False
           = (Inl (Raised ''ServiceError''), h') \<and>
         length h' = 1 \<and> tmean_c \<in> set (df_columns (h' ! 0))) \<and>
   (\<exists>h'. pet_bygrid failing_elevation_bygrid [sample_dataset] 0
           = (Inl (Raised ''ServiceError''), h') \<and>
         length h' = 1 \<and> ''tmean'' \<in> set (ds_keys (h' ! 0)))"
proof -
  have refs: "0 < length [sample_frame]" "0 < length [sample_dataset]"
    by simp_all
  have reqs: "set (reqs_bycoords False) \<subseteq> set (df_columns ([sample_frame] ! 0))"
    by (simp add: reqs_bycoords_def label_defs sample_frame_def)
  have fails: "failing_elevation_bycoords [(Num 0, Num 0)] ''epsg:4326'' = Inl (Raised ''ServiceError'')"
    "failing_elevation_bygrid (ds_x ([sample_dataset] ! 0)) (ds_y ([sample_dataset] ! 0))
       (ds_crs ([sample_dataset] ! 0)) (fmul (fst (ds_res ([sample_dataset] ! 0))) (Num 1000))
       = Inl (Raised ''ServiceError'')"
    by (simp_all add: failing_elevation_bycoords_def failing_elevation_bygrid_def)
  note inst = elevation_failure_propagates [OF refs, of False failing_elevation_bycoords
      "(Num 0, Num 0)" "''epsg:4326''" "Raised ''ServiceError''" failing_elevation_bygrid
      "Raised ''ServiceError''"]
  from inst reqs fails(1) have point:
    "\<exists>h'. pet_bycoords failing_elevation_bycoords [sample_frame] 0 (Num 0, Num 0) ''epsg:4326'' False
           = (Inl (Raised ''ServiceError''), h') \<and>
         length h' = length [sample_frame] \<and> tmean_c \<in> set (df_columns (h' ! 0))"
    by blast
  from inst sample_grid_facts(1) fails(2) have grid:
    "\<exists>h'. pet_bygrid failing_elevation_bygrid [sample_dataset] 0
           = (Inl (Raised ''ServiceError''), h') \<and>
         length h' = length [sample_dataset] \<and> ''tmean'' \<in> set (ds_keys (h' ! 0))"
    by blast
  from point grid show ?thesis
    by simp
qed

section \<open>The grid engine against the specification's formulas\<close>















section \<open>A finite PET at the Equator\<close>






section \<open>Point and grid engines compared\<close>

lemma sample_point_facts:
  "set (reqs_bycoords False) \<subseteq> set (df_columns ([sample_frame] ! 0))"
  "sample_elevation_bycoords [(Num 0, Num 0)] ''epsg:4326'' = Inr (Num 200 # [])"
  by (simp_all add: reqs_bycoords_def label_defs sample_frame_def sample_elevation_bycoords_def)





section \<open>Facts about rounding\<close>

lemma bval_mult: "bval (fst a * fst b, snd a + snd b) = bval a * bval b"
  by (simp add: bval_def power_int_add)

lemma round_even_error:
  assumes "0 < p"
  shows "\<bar>bval (round_even p f) - bval f\<bar> \<le> 2 powi (- int p) * \<bar>bval f\<bar>"
proof -
  obtain m e where f: "f = (m, e)"
    by (cases f)
  define k where "k = bitlen \<bar>m\<bar> - int p"
  show ?thesis
  proof (cases "k \<le> 0")
    case True
    then show ?thesis
      by (simp add: round_even_def f k_def Let_def)
  next
    case False
    define d :: int where "d = 2 ^ nat k"
    define q where "q = m div d"
    define r where "r = m mod d"
    define q' where "q' = (if 2 * r < d \<or> (2 * r = d \<and> even q) then q else q + 1)"
    have d_pos: "0 < d"
      by (simp add: d_def)
    have m_eq: "m = q * d + r"
      by (simp add: q_def r_def)
    have r_bounds: "0 \<le> r" "r < d"
      using d_pos by (simp_all add: r_def)
    have rounded: "round_even p (m, e) = (q', e + k)"
      using False by (simp add: round_even_def k_def Let_def d_def q_def r_def q'_def)
    have near: "2 * \<bar>q' * d - m\<bar> \<le> d"
      using r_bounds by (auto simp: q'_def m_eq algebra_simps)
    have "0 < bitlen \<bar>m\<bar>"
      using False by (simp add: k_def)
    then have m_pos: "0 < \<bar>m\<bar>"
      by (simp add: bitlen_eq_zero_iff less_le flip: bitlen_nonneg)
    have "2 ^ nat (bitlen \<bar>m\<bar> - 1) \<le> \<bar>m\<bar>"
      using bitlen_bounds [OF m_pos] by simp
    moreover have "nat (bitlen \<bar>m\<bar> - 1) = nat k + (p - 1)"
      using False assms by (simp add: k_def nat_add_distrib nat_diff_distrib)
    ultimately have big: "d * 2 ^ (p - 1) \<le> \<bar>m\<bar>"
      by (simp add: d_def power_add)
    have "2 ^ p * (2 * \<bar>q' * d - m\<bar>) \<le> 2 ^ p * d"
      using near by simp
    also have "2 ^ p * d = 2 * (d * 2 ^ (p - 1))"
      using assms by (cases p) simp_all
    also have "\<dots> \<le> 2 * \<bar>m\<bar>"
      using big by simp
    finally have int_bound: "2 ^ p * \<bar>q' * d - m\<bar> \<le> \<bar>m\<bar>"
      by simp
    have "real_of_int (2 ^ p * \<bar>q' * d - m\<bar>) \<le> real_of_int \<bar>m\<bar>"
      using int_bound by (rule of_int_le_iff [THEN iffD2])
    then have real_bound: "\<bar>real_of_int q' * real_of_int d - real_of_int m\<bar>
        \<le> 2 powi (- int p) * \<bar>real_of_int m\<bar>"
      by (simp add: power_int_minus field_simps)
    have dk: "real_of_int d = 2 powi k"
      using False by (simp add: d_def power_int_def)
    have "bval (round_even p f) - bval f
        = (real_of_int q' * real_of_int d - real_of_int m) * 2 powi e"
      by (simp add: rounded f bval_def dk power_int_add algebra_simps)
    then have "\<bar>bval (round_even p f) - bval f\<bar>
        = \<bar>real_of_int q' * real_of_int d - real_of_int m\<bar> * 2 powi e"
      by (simp add: abs_mult)
    also have "\<dots> \<le> 2 powi (- int p) * \<bar>real_of_int m\<bar> * 2 powi e"
      using real_bound by (intro mult_right_mono) simp_all
    also have "\<dots> = 2 powi (- int p) * \<bar>bval f\<bar>"
      by (simp add: f bval_def abs_mult)
    finally show ?thesis .
  qed
qed


lemma bval_kilo: "bval kilo = 1000"
  by (simp add: bval_def kilo_def)

lemma bmul_error:
  assumes "0 < p"
  shows "\<bar>bval (bmul p a b) - bval a * bval b\<bar> \<le> 2 powi (- int p) * \<bar>bval a * bval b\<bar>"
  using round_even_error [OF assms, of "(fst a * fst b, snd a + snd b)"]
  by (simp only: bmul_def bval_mult)

lemma roundtrip_bound:
  assumes p: "2 \<le> p" and c: "\<bar>1000 * bval c - 1\<bar> \<le> 2 powi (- int p)"
  shows "\<bar>bval (bmul p (bmul p v c) kilo) - bval v\<bar> \<le> 4 * 2 powi (- int p) * \<bar>bval v\<bar>"
proof -
  define u :: real where "u = 2 powi (- int p)"
  define x where "x = bval v"
  define a where "a = bval v * bval c"
  define y where "y = bval (bmul p v c)"
  define z where "z = bval (bmul p (bmul p v c) kilo)"
  define X where "X = \<bar>x\<bar>"
  define A where "A = \<bar>a\<bar>"
  define Y where "Y = \<bar>y\<bar>"
  define dY where "dY = \<bar>y - a\<bar>"
  define dZ where "dZ = \<bar>z - 1000 * y\<bar>"
  define C where "C = \<bar>1000 * a - x\<bar>"
  define R where "R = \<bar>z - x\<bar>"
  define uX where "uX = u * X"
  define uuX where "uuX = u * uX"
  define uuuX where "uuuX = u * uuX"
  define uA where "uA = u * A"
  define uY where "uY = u * (1000 * Y)"
  have "(2::real) ^ 2 \<le> 2 ^ p"
    using p by (intro power_increasing) simp_all
  then have "u \<le> 1 / 4"
    by (simp add: u_def power_int_minus field_simps)
  moreover have "0 < u"
    by (simp add: u_def)
  ultimately have u: "0 \<le> u" "u \<le> 1 / 4"
    by simp_all
  have pos: "0 < p"
    using p by simp
  have y: "dY \<le> uA"
    using bmul_error [OF pos, of v c] by (simp add: dY_def uA_def A_def y_def a_def u_def)
  have "\<bar>z - y * 1000\<bar> \<le> u * \<bar>y * 1000\<bar>"
    using bmul_error [OF pos, of "bmul p v c" kilo] by (simp add: z_def y_def u_def bval_kilo)
  then have z: "dZ \<le> uY"
    by (simp add: dZ_def uY_def Y_def abs_mult mult.commute)
  have cerr: "C \<le> uX"
  proof -
    have "1000 * a - x = x * (1000 * bval c - 1)"
      by (simp add: a_def x_def algebra_simps)
    then have "C = X * \<bar>1000 * bval c - 1\<bar>"
      by (simp add: C_def X_def abs_mult)
    also have "\<dots> \<le> X * u"
      using c by (intro mult_left_mono) (simp_all add: u_def X_def)
    finally show ?thesis
      by (simp add: uX_def mult.commute)
  qed
  have nonneg: "0 \<le> uX" "0 \<le> uuX"
    using u(1) by (simp_all add: uX_def uuX_def X_def)
  have tri_a: "1000 * A \<le> X + C"
    unfolding A_def X_def C_def by argo
  have tri_y: "Y \<le> A + dY"
    unfolding A_def Y_def dY_def by argo
  have tri_z: "R \<le> dZ + 1000 * dY + C"
    unfolding R_def dZ_def dY_def C_def by argo
  have a_bound: "1000 * A \<le> X + uX"
    using tri_a cerr by linarith
  have "u * (1000 * A) \<le> u * (X + uX)"
    using a_bound u(1) by (rule mult_left_mono)
  then have "1000 * uA \<le> uX + uuX"
    by (simp add: uA_def uX_def uuX_def algebra_simps)
  with y have y_err: "1000 * dY \<le> uX + uuX"
    by linarith
  with a_bound tri_y have y_bound: "1000 * Y \<le> X + 2 * uX + uuX"
    by linarith
  have "u * (1000 * Y) \<le> u * (X + 2 * uX + uuX)"
    using y_bound u(1) by (rule mult_left_mono)
  then have "uY \<le> uX + 2 * uuX + uuuX"
    by (simp add: uY_def uX_def uuX_def uuuX_def algebra_simps)
  with z have z_err: "dZ \<le> uX + 2 * uuX + uuuX"
    by linarith
  with tri_z y_err cerr have total: "R \<le> 3 * uX + 3 * uuX + uuuX"
    by linarith
  have "u * uX \<le> (1 / 4) * uX"
    using u(2) nonneg(1) by (rule mult_right_mono)
  then have small: "uuX \<le> uX / 4"
    by (simp add: uuX_def)
  have "u * uuX \<le> (1 / 4) * uuX"
    using u(2) nonneg(2) by (rule mult_right_mono)
  then have smaller: "uuuX \<le> uuX / 4"
    by (simp add: uuuX_def)
  from total small smaller nonneg(1) have "R \<le> 4 * uX"
    by linarith
  then show ?thesis
    by (simp add: R_def z_def x_def u_def uX_def X_def)
qed

lemma milli64_error: "\<bar>1000 * bval milli64 - 1\<bar> \<le> 2 powi (- int 53)"
  by (simp add: bval_def milli64_def)

lemma milli32_error: "\<bar>1000 * bval milli32 - 1\<bar> \<le> 2 powi (- int 24)"
  by (simp add: bval_def milli32_def)

lemma vp_roundtrip_error:
  "\<bar>bval (vp_roundtrip64 v) - bval v\<bar> \<le> 2 powi (- 51) * \<bar>bval v\<bar>"
  "\<bar>bval (vp_roundtrip32 w) - bval w\<bar> \<le> 2 powi (- 22) * \<bar>bval w\<bar>"
proof -
  have "\<bar>bval (vp_roundtrip64 v) - bval v\<bar> \<le> 4 * 2 powi (- int 53) * \<bar>bval v\<bar>"
    unfolding vp_roundtrip64_def by (rule roundtrip_bound [OF _ milli64_error]) simp
  then show "\<bar>bval (vp_roundtrip64 v) - bval v\<bar> \<le> 2 powi (- 51) * \<bar>bval v\<bar>"
    by simp
  have "\<bar>bval (vp_roundtrip32 w) - bval w\<bar> \<le> 4 * 2 powi (- int 24) * \<bar>bval w\<bar>"
    unfolding vp_roundtrip32_def by (rule roundtrip_bound [OF _ milli32_error]) simp
  then show "\<bar>bval (vp_roundtrip32 w) - bval w\<bar> \<le> 2 powi (- 22) * \<bar>bval w\<bar>"
    by simp
qed

section \<open>The vapour pressure after the call\<close>

lemma pet_bygrid_vp_cell:
  assumes "pet_bygrid elevation_bygrid h clm_ds = (Inr out, h')" and "clm_ds < length h"
  shows "ds_getitem (h' ! out) ''vp'' t y x
           = fmul (fmul (ds_getitem (h ! clm_ds) ''vp'' t y x) (Num 0.001)) (Num 1000)"
  using assms
  by (auto simp: pet_bygrid_def Let_def alloc_def nth_append xr_merge_Inr(2)
      split: sum.splits if_splits simp del: check_requirements.simps)

text \<open>
  Claim C3, as the code has it. In both engines the vapour pressure of the returned
  container is the input's value multiplied by \<open>0.001\<close> and then by \<open>1000\<close>, and nothing
  else: the column ends in pascals. With exact arithmetic that is the input's value. With
  the rounding of IEEE 754 it is within a relative error of \<open>2\<^sup>-\<^sup>5\<^sup>1\<close> of it in binary64
  and of \<open>2\<^sup>-\<^sup>2\<^sup>2\<close> in binary32, and need not be the same number.
\<close>

theorem vp_round_trip:
  assumes "clm_df < length hp" and "clm_ds < length hg"
  shows "(set (reqs_bycoords alt_unit) \<subseteq> set (df_columns (hp ! clm_df)) \<and>
          elevation_bycoords [coords] crs = Inr (elevation # others) \<longrightarrow>
            (\<exists>out h'.
               pet_bycoords elevation_bycoords hp clm_df coords crs alt_unit = (Inr out, h') \<and>
               (\<forall>i. getitem (h' ! out) va_pa i
                      = fmul (fmul (getitem (hp ! clm_df) va_pa i) (Num 0.001)) (Num 1000) \<and>
                    getitem (h' ! out) va_pa i = getitem (hp ! clm_df) va_pa i))) \<and>
         (\<forall>out h' t y x. pet_bygrid elevation_bygrid hg clm_ds = (Inr out, h') \<longrightarrow>
            ds_getitem (h' ! out) ''vp'' t y x
              = fmul (fmul (ds_getitem (hg ! clm_ds) ''vp'' t y x) (Num 0.001)) (Num 1000) \<and>
            ds_getitem (h' ! out) ''vp'' t y x = ds_getitem (hg ! clm_ds) ''vp'' t y x) \<and>
         (set reqs_bygrid \<subseteq> set (ds_keys (hg ! clm_ds)) \<and>
          elevation_bygrid (ds_x (hg ! clm_ds)) (ds_y (hg ! clm_ds)) (ds_crs (hg ! clm_ds))
            (fmul (fst (ds_res (hg ! clm_ds))) (Num 1000)) = Inr elev \<and>
          ''elevation'' \<notin> set (ds_keys (hg ! clm_ds)) \<and> ds_time (hg ! clm_ds) \<noteq> [] \<longrightarrow>
          (\<exists>out h'. pet_bygrid elevation_bygrid hg clm_ds = (Inr out, h'))) \<and>
         \<bar>bval (vp_roundtrip64 v) - bval v\<bar> \<le> 2 powi (- 51) * \<bar>bval v\<bar> \<and>
         \<bar>bval (vp_roundtrip32 w) - bval w\<bar> \<le> 2 powi (- 22) * \<bar>bval w\<bar>"
proof (intro conjI allI impI)
  let ?run = "pet_bycoords elevation_bycoords hp clm_df coords crs alt_unit"
  assume "set (reqs_bycoords alt_unit) \<subseteq> set (df_columns (hp ! clm_df)) \<and>
      elevation_bycoords [coords] crs = Inr (elevation # others)"
  then have reqs: "set (reqs_bycoords alt_unit) \<subseteq> set (df_columns (hp ! clm_df))"
    and lookup: "elevation_bycoords [coords] crs = Inr (elevation # others)"
    by simp_all
  have "fst ?run = Inr (length hp)"
    using assms(1) reqs lookup by (rule pet_bycoords_returns(1))
  then have run: "?run = (Inr (length hp), snd ?run)"
    by (simp add: prod_eq_iff)
  have vp: "getitem (snd ?run ! length hp) va_pa i
      = fmul (fmul (getitem (hp ! clm_df) va_pa i) (Num 0.001)) (Num 1000)" for i
    using assms(1) reqs lookup by (rule pet_bycoords_vp_column)
  then have "getitem (snd ?run ! length hp) va_pa i = getitem (hp ! clm_df) va_pa i" for i
    by (simp only: fmul_milli_kilo)
  with run vp show "\<exists>out h'. ?run = (Inr out, h') \<and>
      (\<forall>i. getitem (h' ! out) va_pa i
             = fmul (fmul (getitem (hp ! clm_df) va_pa i) (Num 0.001)) (Num 1000) \<and>
           getitem (h' ! out) va_pa i = getitem (hp ! clm_df) va_pa i)"
    by blast
next
  fix out h' t y x
  assume run: "pet_bygrid elevation_bygrid hg clm_ds = (Inr out, h')"
  from run assms(2) show vp: "ds_getitem (h' ! out) ''vp'' t y x
      = fmul (fmul (ds_getitem (hg ! clm_ds) ''vp'' t y x) (Num 0.001)) (Num 1000)"
    by (rule pet_bygrid_vp_cell)
  then show "ds_getitem (h' ! out) ''vp'' t y x = ds_getitem (hg ! clm_ds) ''vp'' t y x"
    by (simp only: fmul_milli_kilo)
next
  assume ok: "set reqs_bygrid \<subseteq> set (ds_keys (hg ! clm_ds)) \<and>
      elevation_bygrid (ds_x (hg ! clm_ds)) (ds_y (hg ! clm_ds)) (ds_crs (hg ! clm_ds))
        (fmul (fst (ds_res (hg ! clm_ds))) (Num 1000)) = Inr elev \<and>
      ''elevation'' \<notin> set (ds_keys (hg ! clm_ds)) \<and> ds_time (hg ! clm_ds) \<noteq> []"
  have "fst (pet_bygrid elevation_bygrid hg clm_ds) = Inr (length hg)"
    using assms(2) ok by (intro pet_bygrid_returns [where elev = elev]) simp_all
  then show "\<exists>out h'. pet_bygrid elevation_bygrid hg clm_ds = (Inr out, h')"
    by (metis prod.collapse)
next
  show "\<bar>bval (vp_roundtrip64 v) - bval v\<bar> \<le> 2 powi (- 51) * \<bar>bval v\<bar>"
    by (rule vp_roundtrip_error(1))
  show "\<bar>bval (vp_roundtrip32 w) - bval w\<bar> \<le> 2 powi (- 22) * \<bar>bval w\<bar>"
    by (rule vp_roundtrip_error(2))
qed

theorem vp_round_trip_witness:
  "(\<exists>out h'.
      pet_bycoords sample_elevation_bycoords [sample_frame] 0 (Num 0, Num 0) ''epsg:4326'' False
        = (Inr out, h') \<and>
      getitem (h' ! out) va_pa 0 = Num 1500) \<and>
   (\<exists>out h'. pet_bygrid sample_elevation_bygrid [sample_dataset] 0 = (Inr out, h') \<and>
      ds_getitem (h' ! out) ''vp'' 0 0 0 = Num 1500) \<and>
   \<bar>bval (vp_roundtrip64 (1400, 0)) - bval (1400, 0)\<bar> \<le> 2 powi (- 51) * \<bar>bval (1400, 0)\<bar> \<and>
   \<bar>bval (vp_roundtrip32 (1400, 0)) - bval (1400, 0)\<bar> \<le> 2 powi (- 22) * \<bar>bval (1400, 0)\<bar>"
proof -
  have refs: "0 < length [sample_frame]" "0 < length [sample_dataset]"
    by simp_all
  note inst = vp_round_trip [OF refs, of False sample_elevation_bycoords "(Num 0, Num 0)"
      "''epsg:4326''" "Num 200" "[]" sample_elevation_bygrid "\<lambda>y x. Num 200" "(1400, 0)" "(1400, 0)"]
  from inst sample_point_facts obtain outp hp' where
    point: "pet_bycoords sample_elevation_bycoords [sample_frame] 0 (Num 0, Num 0) ''epsg:4326'' False
        = (Inr outp, hp')"
      "getitem (hp' ! outp) va_pa 0 = getitem ([sample_frame] ! 0) va_pa 0"
    by blast
  have "getitem ([sample_frame] ! 0) va_pa 0 = Num 1500"
    by (simp add: sample_frame_def getitem_def label_defs)
  with point have p: "\<exists>out h'.
      pet_bycoords sample_elevation_bycoords [sample_frame] 0 (Num 0, Num 0) ''epsg:4326'' False
        = (Inr out, h') \<and>
      getitem (h' ! out) va_pa 0 = Num 1500"
    by auto
  from inst sample_grid_facts obtain outg hg' where
    grid: "pet_bygrid sample_elevation_bygrid [sample_dataset] 0 = (Inr outg, hg')"
    by blast
  with inst have "ds_getitem (hg' ! outg) ''vp'' 0 0 0 = ds_getitem ([sample_dataset] ! 0) ''vp'' 0 0 0"
    by blast
  moreover have "ds_getitem ([sample_dataset] ! 0) ''vp'' 0 0 0 = Num 1500"
    by (simp add: sample_dataset_def ds_getitem_def)
  ultimately have g: "\<exists>out h'. pet_bygrid sample_elevation_bygrid [sample_dataset] 0 = (Inr out, h') \<and>
      ds_getitem (h' ! out) ''vp'' 0 0 0 = Num 1500"
    using grid by auto
  from inst have "\<bar>bval (vp_roundtrip64 (1400, 0)) - bval (1400, 0)\<bar> \<le> 2 powi (- 51) * \<bar>bval (1400, 0)\<bar>"
    and "\<bar>bval (vp_roundtrip32 (1400, 0)) - bval (1400, 0)\<bar> \<le> 2 powi (- 22) * \<bar>bval (1400, 0)\<bar>"
    by blast+
  with p g show ?thesis
    by blast
qed

text \<open>
  The claim as it is stated, that the returned values equal the input's, fails in binary64
  at a vapour pressure of 1400 Pa: \<open>1400 \<times> 0.001\<close> rounds to
  \<open>6305039478318695 \<times> 2\<^sup>-\<^sup>5\<^sup>2\<close>, and that times \<open>1000\<close> rounds to
  \<open>6157265115545601 \<times> 2\<^sup>-\<^sup>4\<^sup>2\<close>, the float after \<open>1400 = 6157265115545600 \<times> 2\<^sup>-\<^sup>4\<^sup>2\<close>.
\<close>

theorem vp_round_trip_inexact:
  "bmul 53 (1400, 0) milli64 = (6305039478318695, - 52) \<and>
   vp_roundtrip64 (1400, 0) = (6157265115545601, - 42) \<and>
   bval (vp_roundtrip64 (1400, 0)) \<noteq> bval (1400, 0)"
proof -
  have "bmul 53 (1400, 0) milli64 = (6305039478318695, - 52)"
    by code_simp
  moreover have "vp_roundtrip64 (1400, 0) = (6157265115545601, - 42)"
    by code_simp
  moreover have "bval (6157265115545601, - 42) \<noteq> bval (1400, 0)"
    by (simp add: bval_def)
  ultimately show ?thesis
    by simp
qed

end
